theory Spec2Isabelle
  imports Main "HOL-Library.Word"
begin

unbundle bit_operations_syntax

section \<open>Data model of CryptoBuiltInImpl\<close>

type_synonym octet = "8 word"
type_synonym octets = "8 word list"

text \<open>NativeCryptoHandle and the handles derived from it are 32-bit; 0 is \<open>HANDLE_NIL\<close>.\<close>

type_synonym handle = "32 word"

definition HANDLE_NIL :: handle where
  "HANDLE_NIL = 0"

text \<open>
  \<open>KeyMaterial_AES_GCM_GMAC\<close>: three 4-octet arrays and three octet sequences. The arrays are
  octet lists; the struct fixes their length at 4.
\<close>

record KeyMaterial =
  transformation_kind :: octets
  master_salt :: octets
  sender_key_id :: octets
  master_sender_key :: octets
  receiver_specific_key_id :: octets
  master_receiver_specific_key :: octets

text \<open>\<open>CryptoHeader\<close>, with the two fields of its \<open>transform_identifier\<close> written flat.\<close>

record CryptoHeader =
  tid_transformation_kind :: octets
  tid_transformation_key_id :: octets
  session_id :: octets
  initialization_vector_suffix :: octets

record CryptoFooter =
  common_mac :: octets
  receiver_specific_macs :: "(octets \<times> octets) list"

text \<open>
  \<open>SecurityException\<close> as filled in by \<open>set_security_error\<close>. One overload also takes a
  transformation kind and a key id for diagnostics; \<open>CommonUtilities\<close> is not among the
  sources, so the two identifiers are kept beside the message as they were passed.
\<close>

record SecurityException =
  code :: int
  minor_code :: int
  message :: string
  diagnostic_ids :: "(octets \<times> octets) option"

definition set_security_error :: "int \<Rightarrow> int \<Rightarrow> string \<Rightarrow> SecurityException" where
  "set_security_error c m msg =
     \<lparr>code = c, minor_code = m, message = msg, diagnostic_ids = None\<rparr>"

definition set_security_error_ids ::
  "int \<Rightarrow> int \<Rightarrow> string \<Rightarrow> octets \<Rightarrow> octets \<Rightarrow> SecurityException" where
  "set_security_error_ids c m msg kind key_id =
     \<lparr>code = c, minor_code = m, message = msg, diagnostic_ids = Some (kind, key_id)\<rparr>"

text \<open>\<open>CryptoBuiltInImpl::Session\<close>; the fields \<open>id_\<close> (4 octets), \<open>iv_suffix_\<close> (8 octets),
  \<open>key_\<close> and \<open>counter_\<close> carry the prefix \<open>s_\<close> here, the fields of \<open>EntityInfo\<close> the prefix
  \<open>ei_\<close> and those of \<open>EncryptOpts\<close> the prefix \<open>o_\<close>, since a name cannot end in an underscore.\<close>

record Session =
  s_id :: octets
  s_iv_suffix :: octets
  s_key :: octets
  s_counter :: "32 word"

datatype SecureSubmessageCategory_t =
  INFO_SUBMESSAGE | DATAWRITER_SUBMESSAGE | DATAREADER_SUBMESSAGE

record EntityInfo =
  ei_category :: SecureSubmessageCategory_t
  ei_handle :: handle

record EncryptOpts =
  o_submessage :: bool
  o_payload :: bool

record EndpointSecurityAttributes =
  is_submessage_protected :: bool
  is_payload_protected :: bool
  plugin_endpoint_attributes :: "32 word"

text \<open>
  \<open>encrypt_options_[h] = security_attributes\<close> converts the attributes to the two options the
  transforms read.
\<close>

definition opts_of_attributes :: "EndpointSecurityAttributes \<Rightarrow> EncryptOpts" where
  "opts_of_attributes a =
     \<lparr>o_submessage = is_submessage_protected a, o_payload = is_payload_protected a\<rparr>"

record SharedSecretHandle =
  challenge1 :: octets
  challenge2 :: octets
  sharedSecret :: octets

text \<open>
  What the decode operations read from an encoded buffer: the crypto header, the crypto
  footer, the octets at the read pointer that are handed to \<open>decrypt\<close> (\<open>n\<close> of them, \<open>n\<close>
  read from the buffer) and the octets handed to \<open>verify\<close> (the wrapped submessage with its
  header).
\<close>

record parsed_submsg =
  p_header :: CryptoHeader
  p_footer :: CryptoFooter
  p_ciphertext :: octets
  p_authenticated :: octets

subsection \<open>What the code takes from outside\<close>

text \<open>
  Results of the OpenSSL calls the code checks one by one. A digest signature can fail before
  the result buffer is sized (the code returns and leaves the buffer as it was) or in the last
  \<open>EVP_DigestSignFinal\<close> (the code then empties the buffer).
\<close>

datatype sign_result = SignEarlyFail | SignFinalFail | Signed octets

datatype evp_failure = EVP_Init | EVP_Update | EVP_Final | EVP_Ctrl

text \<open>
  The environment collects what is outside the translated file: the OpenSSL primitives, the
  random source, the debug switch \<open>security_debug.fake_encryption\<close>, constants declared in
  headers that are not part of the sources at hand (the vendor id, the plugin attribute flags,
  the submessage ids, the default-constructed \<open>EncryptOpts\<close>), the parse of an encoded
  buffer done by the Serializer, the contents of variables the code reads without having
  initialized them, the octets \<open>align_w\<close> of the Serializer writes as padding
  (\<open>align_fill\<close>), and what a sequence holds at a position that was given to it by
  \<open>length(n)\<close> and never written (\<open>buffer_fill\<close>).
\<close>

record env =
  rnd :: "nat \<Rightarrow> octet"
  ssl_hash :: "octets \<Rightarrow> octets option"
  hmac_sha256 :: "octets \<Rightarrow> octets \<Rightarrow> sign_result"
  gcm_encrypt :: "octets \<Rightarrow> octets \<Rightarrow> octets \<Rightarrow> evp_failure + (octets \<times> octets)"
  gmac_tag :: "octets \<Rightarrow> octets \<Rightarrow> octets \<Rightarrow> evp_failure + octets"
  gcm_decrypt :: "octets \<Rightarrow> octets \<Rightarrow> octets \<Rightarrow> octets \<Rightarrow> evp_failure + octets"
  gmac_verify :: "octets \<Rightarrow> octets \<Rightarrow> octets \<Rightarrow> octets \<Rightarrow> evp_failure option"
  fake_encryption :: bool
  parse_submessage :: "octets \<Rightarrow> parsed_submsg"
  parse_payload :: "octets \<Rightarrow> parsed_submsg"
  uninit_mac :: octets
  uninit_octet :: octet
  uninit_ushort :: "16 word"
  align_fill :: "nat \<Rightarrow> octet"
  buffer_fill :: "nat \<Rightarrow> octet"
  VENDORID_OCI :: "octet \<times> octet"
  FLAG_IS_SUBMESSAGE_ENCRYPTED :: "32 word"
  FLAG_IS_PAYLOAD_ENCRYPTED :: "32 word"
  SEC_BODY :: octet
  SEC_PREFIX :: octet
  SEC_POSTFIX :: octet
  default_EncryptOpts :: EncryptOpts

text \<open>
  \<open>RAND_bytes(buf, n)\<close>: the next \<open>n\<close> octets of the random stream; the position in the
  stream is threaded through the calls.
\<close>

definition RAND_bytes :: "env \<Rightarrow> nat \<Rightarrow> nat \<Rightarrow> octets \<times> nat" where
  "RAND_bytes e n pos = (map (rnd e) [pos ..< pos + n], pos + n)"

definition KEY_LEN_BYTES :: nat where
  "KEY_LEN_BYTES = 32"

definition BLOCK_LEN_BYTES :: "32 word" where
  "BLOCK_LEN_BYTES = 16"

definition MAX_BLOCKS_PER_SESSION :: "32 word" where
  "MAX_BLOCKS_PER_SESSION = 1024"

text \<open>
  Modelled from the spec: the transformation kinds and the index of the octet that selects the
  algorithm (declared in the IDL, which is not among the sources): the last of the four octets,
  with 0 = NONE, 1 = AES128_GMAC, 2 = AES128_GCM, 3 = AES256_GMAC, 4 = AES256_GCM.
\<close>

definition TransformKindIndex :: nat where
  "TransformKindIndex = 3"

definition CRYPTO_TRANSFORMATION_KIND_AES128_GMAC :: octet where
  "CRYPTO_TRANSFORMATION_KIND_AES128_GMAC = 1"

definition CRYPTO_TRANSFORMATION_KIND_AES128_GCM :: octet where
  "CRYPTO_TRANSFORMATION_KIND_AES128_GCM = 2"

definition CRYPTO_TRANSFORMATION_KIND_AES256_GMAC :: octet where
  "CRYPTO_TRANSFORMATION_KIND_AES256_GMAC = 3"

definition CRYPTO_TRANSFORMATION_KIND_AES256_GCM :: octet where
  "CRYPTO_TRANSFORMATION_KIND_AES256_GCM = 4"

definition octets_of_string :: "string \<Rightarrow> octets" where
  "octets_of_string s = map of_char s"

section \<open>Session engine\<close>

text \<open>
  \<open>inc32\<close>: the loop looks for the first of four octets that is not \<open>0xff\<close>, adds one to it
  and returns false; when all four are \<open>0xff\<close> it zeroes them and returns true.
\<close>

function inc32_loop :: "nat \<Rightarrow> octets \<Rightarrow> bool \<times> octets" where
  "inc32_loop i a =
     (if i < 4
      then (if a ! i \<noteq> 0xff then (False, a[i := a ! i + 1]) else inc32_loop (i + 1) a)
      else (True, replicate 4 0 @ drop 4 a))"
  by pat_completeness auto
termination
  by (relation "measure (\<lambda>(i, a). 4 - i)") auto

definition inc32 :: "octets \<Rightarrow> bool \<times> octets" where
  "inc32 a = inc32_loop 0 a"

text \<open>
  \<open>Session::derive_key\<close>: HMAC keyed by the master sender key over the cookie, the master
  salt and the session id.
\<close>

definition derive_key :: "env \<Rightarrow> KeyMaterial \<Rightarrow> Session \<Rightarrow> Session" where
  "derive_key e master sess =
     (case hmac_sha256 e (master_sender_key master)
             (octets_of_string ''SessionKey'' @ master_salt master @ s_id sess) of
        SignEarlyFail \<Rightarrow> sess
      | SignFinalFail \<Rightarrow> sess\<lparr>s_key := []\<rparr>
      | Signed k \<Rightarrow> sess\<lparr>s_key := k\<rparr>)"

definition create_key :: "env \<Rightarrow> KeyMaterial \<Rightarrow> Session \<Rightarrow> nat \<Rightarrow> Session \<times> nat" where
  "create_key e master sess pos =
     (let (i, pos1) = RAND_bytes e 4 pos;
          (iv, pos2) = RAND_bytes e 8 pos1;
          s = derive_key e master (sess\<lparr>s_id := i, s_iv_suffix := iv\<rparr>)
      in (s\<lparr>s_counter := 0\<rparr>, pos2))"

definition next_id :: "env \<Rightarrow> KeyMaterial \<Rightarrow> Session \<Rightarrow> nat \<Rightarrow> Session \<times> nat" where
  "next_id e master sess pos =
     (let s0 = sess\<lparr>s_id := snd (inc32 (s_id sess))\<rparr>;
          (iv, pos1) = RAND_bytes e 8 pos;
          s = derive_key e master (s0\<lparr>s_iv_suffix := iv, s_key := []\<rparr>)
      in (s\<lparr>s_counter := 0\<rparr>, pos1))"

text \<open>
  \<open>Session::inc_iv\<close>: \<open>inc32\<close> on the first four octets of the suffix and, when that call
  returns true, \<open>inc32\<close> on the last four.
\<close>

definition inc_iv :: "Session \<Rightarrow> Session" where
  "inc_iv sess =
     (let (carry, a) = inc32 (s_iv_suffix sess)
      in if carry then sess\<lparr>s_iv_suffix := take 4 a @ snd (inc32 (drop 4 a))\<rparr>
         else sess\<lparr>s_iv_suffix := a\<rparr>)"

definition blocks_of :: "octets \<Rightarrow> 32 word" where
  "blocks_of plain = (of_nat (length plain) + BLOCK_LEN_BYTES - 1) div BLOCK_LEN_BYTES"

definition encauth_setup ::
  "env \<Rightarrow> KeyMaterial \<Rightarrow> Session \<Rightarrow> octets \<Rightarrow> nat \<Rightarrow> Session \<times> CryptoHeader \<times> nat" where
  "encauth_setup e master sess plain pos =
     (let blocks = blocks_of plain;
          (sess', pos') =
            (if s_key sess = [] then create_key e master sess pos
             else if s_counter sess + blocks > MAX_BLOCKS_PER_SESSION
             then next_id e master sess pos
             else ((inc_iv sess)\<lparr>s_counter := s_counter sess + blocks\<rparr>, pos));
          header = \<lparr>tid_transformation_kind = transformation_kind master,
                    tid_transformation_key_id = sender_key_id master,
                    session_id = s_id sess',
                    initialization_vector_suffix = s_iv_suffix sess'\<rparr>
      in (sess', header, pos'))"

text \<open>The value of an octet array read as a little-endian integer.\<close>

fun le_value :: "octets \<Rightarrow> nat" where
  "le_value [] = 0"
| "le_value (b # bs) = unat b + 256 * le_value bs"

section \<open>Key registry\<close>

text \<open>
  The maps of \<open>CryptoBuiltInImpl\<close>. \<open>participant_to_entity_\<close> is a multimap: the pairs are
  kept in insertion order, which is the order \<open>equal_range\<close> enumerates the entries of one
  participant in. \<open>rand_pos\<close> is the position in the random stream.
\<close>

record CryptoState =
  next_handle :: handle
  keys :: "handle \<rightharpoonup> KeyMaterial list"
  participant_to_entity :: "(handle \<times> EntityInfo) list"
  encrypt_options :: "handle \<rightharpoonup> EncryptOpts"
  sessions :: "handle \<times> nat \<rightharpoonup> Session"
  rand_pos :: nat

text \<open>
  \<open>m[k]\<close> on a \<open>std::map\<close>: the value stored under \<open>k\<close>; when there is none, a
  default-constructed value is inserted first.
\<close>

definition map_index :: "'v \<Rightarrow> ('k \<rightharpoonup> 'v) \<Rightarrow> 'k \<Rightarrow> 'v \<times> ('k \<rightharpoonup> 'v)" where
  "map_index d m k = (case m k of None \<Rightarrow> (d, m(k \<mapsto> d)) | Some v \<Rightarrow> (v, m))"

text \<open>
  Modelled from the spec: \<open>CommonUtilities::increment_handle\<close>, which is not among the sources.
  Handles are issued from a monotonically incrementing counter: the call returns the counter
  and advances it by one, in 32 bits.
\<close>

definition increment_handle :: "handle \<Rightarrow> handle \<times> handle" where
  "increment_handle n = (n, n + 1)"

definition generate_handle :: "CryptoState \<Rightarrow> handle \<times> CryptoState" where
  "generate_handle st =
     (let (h, n) = increment_handle (next_handle st) in (h, st\<lparr>next_handle := n\<rparr>))"

definition make_key :: "env \<Rightarrow> 32 word \<Rightarrow> bool \<Rightarrow> nat \<Rightarrow> KeyMaterial \<times> nat" where
  "make_key e key_id encrypt pos =
     (let (salt, pos1) = RAND_bytes e KEY_LEN_BYTES pos;
          (msk, pos2) = RAND_bytes e KEY_LEN_BYTES pos1
      in (\<lparr>transformation_kind =
              replicate TransformKindIndex 0 @
              [if encrypt then CRYPTO_TRANSFORMATION_KIND_AES256_GCM
               else CRYPTO_TRANSFORMATION_KIND_AES256_GMAC],
            master_salt = salt,
            sender_key_id = map (\<lambda>i. ucast (drop_bit (8 * i) key_id)) [0 ..< 4],
            master_sender_key = msk,
            receiver_specific_key_id = replicate 4 0,
            master_receiver_specific_key = []\<rparr>, pos2))"

text \<open>A \<open>DDS::PropertySeq\<close> as the list of its (name, value) pairs.\<close>

fun is_builtin_volatile :: "(string \<times> string) list \<Rightarrow> bool" where
  "is_builtin_volatile [] = False"
| "is_builtin_volatile ((n, v) # props) =
     (if n = ''dds.sec.builtin_endpoint_name''
      then v = ''BuiltinParticipantVolatileMessageSecureWriter''
         \<or> v = ''BuiltinParticipantVolatileMessageSecureReader''
      else is_builtin_volatile props)"

text \<open>\<open>memcmp(a, b, n) == 0\<close> on two arrays of at least \<open>n\<close> octets.\<close>

definition memcmp_eq :: "nat \<Rightarrow> octets \<Rightarrow> octets \<Rightarrow> bool" where
  "memcmp_eq n a b = (take n a = take n b)"

definition volatile_placeholder_kind :: "env \<Rightarrow> octets" where
  "volatile_placeholder_kind e = [fst (VENDORID_OCI e), snd (VENDORID_OCI e), 0, 1]"

definition is_volatile_placeholder :: "env \<Rightarrow> KeyMaterial \<Rightarrow> bool" where
  "is_volatile_placeholder e keymat =
     memcmp_eq 4 (volatile_placeholder_kind e) (transformation_kind keymat)"

definition make_volatile_placeholder :: "env \<Rightarrow> KeyMaterial" where
  "make_volatile_placeholder e =
     \<lparr>transformation_kind = volatile_placeholder_kind e, master_salt = [],
      sender_key_id = [0, 0, 0, 0], master_sender_key = [],
      receiver_specific_key_id = [0, 0, 0, 0], master_receiver_specific_key = []\<rparr>"

text \<open>
  \<open>hkdf\<close>: the key is the hash of prefix, the 16 octets of the cookie and suffix; the result is
  the HMAC of the data under that key. Every early return leaves \<open>result\<close> as it was passed
  in; a failure of the last call empties it.
\<close>

definition hkdf :: "env \<Rightarrow> octets \<Rightarrow> octets \<Rightarrow> string \<Rightarrow> octets \<Rightarrow> octets \<Rightarrow> octets" where
  "hkdf e result prefix cookie suffix data =
     (case ssl_hash e (prefix @ take 16 (octets_of_string cookie) @ suffix) of
        None \<Rightarrow> result
      | Some key \<Rightarrow>
          (case hmac_sha256 e key data of
             SignEarlyFail \<Rightarrow> result
           | SignFinalFail \<Rightarrow> []
           | Signed r \<Rightarrow> r))"

definition KxSaltCookie :: string where
  "KxSaltCookie = ''keyexchange salt''"

definition KxKeyCookie :: string where
  "KxKeyCookie = ''key exchange key''"

definition make_volatile_key :: "env \<Rightarrow> octets \<Rightarrow> octets \<Rightarrow> octets \<Rightarrow> KeyMaterial" where
  "make_volatile_key e c1 c2 sharedSec =
     \<lparr>transformation_kind = [0, 0, 0, CRYPTO_TRANSFORMATION_KIND_AES256_GCM],
      master_salt = hkdf e [] c1 KxSaltCookie c2 sharedSec,
      sender_key_id = [0, 0, 0, 0],
      master_sender_key = hkdf e [] c2 KxKeyCookie c1 sharedSec,
      receiver_specific_key_id = [0, 0, 0, 0],
      master_receiver_specific_key = []\<rparr>"

text \<open>
  The registration functions return a handle and fill in the exception on failure; here the
  failure is \<open>Inl\<close> of the exception, and \<open>returned_handle\<close> is the handle the caller gets.
\<close>

definition returned_handle :: "SecurityException + handle \<Rightarrow> handle" where
  "returned_handle r = (case r of Inl ex \<Rightarrow> HANDLE_NIL | Inr h \<Rightarrow> h)"

definition register_local_datawriter ::
  "env \<Rightarrow> CryptoState \<Rightarrow> handle \<Rightarrow> (string \<times> string) list \<Rightarrow> EndpointSecurityAttributes
   \<Rightarrow> (SecurityException + handle) \<times> CryptoState" where
  "register_local_datawriter e st participant_crypto properties security_attributes =
     (if HANDLE_NIL = participant_crypto
      then (Inl (set_security_error (-1) 0 ''Invalid Participant Crypto Handle''), st)
      else
        let (h, st1) = generate_handle st;
            plugin_attribs = plugin_endpoint_attributes security_attributes;
            (ks, st2) =
              (if is_builtin_volatile properties then ([make_volatile_placeholder e], st1)
               else
                 let (ks1, used_h, sta) =
                       (if is_submessage_protected security_attributes
                        then let (key, p) =
                                   make_key e h
                                     (plugin_attribs AND FLAG_IS_SUBMESSAGE_ENCRYPTED e \<noteq> 0)
                                     (rand_pos st1)
                             in ([key], True, st1\<lparr>rand_pos := p\<rparr>)
                        else ([], False, st1))
                 in if is_payload_protected security_attributes
                    then let (key_id, stb) = (if used_h then generate_handle sta else (h, sta));
                             (key, p) =
                               make_key e key_id
                                 (plugin_attribs AND FLAG_IS_PAYLOAD_ENCRYPTED e \<noteq> 0)
                                 (rand_pos stb)
                         in (ks1 @ [key], stb\<lparr>rand_pos := p\<rparr>)
                    else (ks1, sta))
        in (Inr h,
            st2\<lparr>keys := (keys st2)(h \<mapsto> ks),
                participant_to_entity :=
                  participant_to_entity st2 @
                  [(participant_crypto, \<lparr>ei_category = DATAWRITER_SUBMESSAGE, ei_handle = h\<rparr>)],
                encrypt_options :=
                  (encrypt_options st2)(h \<mapsto> opts_of_attributes security_attributes)\<rparr>))"

text \<open>
  The tail shared by both branches of \<open>register_matched_remote_datareader\<close>: the entity is
  recorded under the remote participant and the options of the local writer are copied
  (\<open>encrypt_options_[h] = encrypt_options_[local]\<close>, two uses of \<open>operator[]\<close>).
\<close>

definition record_remote_datareader ::
  "env \<Rightarrow> CryptoState \<Rightarrow> handle \<Rightarrow> handle \<Rightarrow> handle \<Rightarrow> CryptoState" where
  "record_remote_datareader e st h local_datawriter_crypto_handle remote_participant_crypto =
     (let (opts, m) =
            map_index (default_EncryptOpts e) (encrypt_options st) local_datawriter_crypto_handle
      in st\<lparr>participant_to_entity :=
               participant_to_entity st @
               [(remote_participant_crypto,
                 \<lparr>ei_category = DATAREADER_SUBMESSAGE, ei_handle = h\<rparr>)],
             encrypt_options := m(h \<mapsto> opts)\<rparr>)"

definition register_matched_remote_datareader ::
  "env \<Rightarrow> CryptoState \<Rightarrow> handle \<Rightarrow> handle \<Rightarrow> SharedSecretHandle option
   \<Rightarrow> (SecurityException + handle) \<times> CryptoState" where
  "register_matched_remote_datareader e st local_datawriter_crypto_handle
       remote_participant_crypto shared_secret =
     (if HANDLE_NIL = local_datawriter_crypto_handle
      then (Inl (set_security_error (-1) 0 ''Invalid Local DataWriter Crypto Handle''), st)
      else if HANDLE_NIL = remote_participant_crypto
      then (Inl (set_security_error (-1) 0 ''Invalid Remote Participant Crypto Handle''), st)
      else
        (case shared_secret of
           None \<Rightarrow> (Inl (set_security_error (-1) 0 ''Invalid Shared Secret Handle''), st)
         | Some ss \<Rightarrow>
             let (h, st1) = generate_handle st
             in (case keys st1 local_datawriter_crypto_handle of
                   None \<Rightarrow>
                     (Inl (set_security_error (-1) 0 ''Invalid Local DataWriter Crypto Handle''),
                      st1)
                 | Some dw_keys \<Rightarrow>
                     if length dw_keys = 1 \<and> is_volatile_placeholder e (dw_keys ! 0)
                     then
                       let k = make_volatile_key e (challenge1 ss) (challenge2 ss)
                                 (sharedSecret ss)
                       in if master_salt k = [] \<or> master_sender_key k = []
                          then (Inl (set_security_error (-1) 0
                                       ''Couldn't create key for volatile remote reader''), st1)
                          else (Inr h,
                                record_remote_datareader e (st1\<lparr>keys := (keys st1)(h \<mapsto> [k])\<rparr>)
                                  h local_datawriter_crypto_handle remote_participant_crypto)
                     else (Inr h,
                           record_remote_datareader e st1 h local_datawriter_crypto_handle
                             remote_participant_crypto))))"

text \<open>
  \<open>clear_endpoint_data\<close>: the two \<open>erase(handle)\<close> calls, the loop over the whole multimap that
  erases the pairs whose stored entity has the handle, and the loop over the session table,
  which starts at the first key not below \<open>(handle, 0)\<close> and erases while the first component
  of the key is the handle, that is every session of the handle.
\<close>

definition clear_endpoint_data :: "CryptoState \<Rightarrow> handle \<Rightarrow> CryptoState" where
  "clear_endpoint_data st h =
     st\<lparr>keys := (keys st)(h := None),
        encrypt_options := (encrypt_options st)(h := None),
        participant_to_entity := filter (\<lambda>(p, ei). ei_handle ei \<noteq> h) (participant_to_entity st),
        sessions := (\<lambda>k. if fst k = h then None else sessions st k)\<rparr>"

definition unregister_participant ::
  "CryptoState \<Rightarrow> handle \<Rightarrow> (SecurityException + bool) \<times> CryptoState" where
  "unregister_participant st h =
     (if HANDLE_NIL = h then (Inl (set_security_error (-1) 0 ''Invalid Crypto Handle''), st)
      else (Inr True, st))"

definition unregister_datawriter ::
  "CryptoState \<Rightarrow> handle \<Rightarrow> (SecurityException + bool) \<times> CryptoState" where
  "unregister_datawriter st h =
     (if HANDLE_NIL = h then (Inl (set_security_error (-1) 0 ''Invalid Crypto Handle''), st)
      else (Inr True, clear_endpoint_data st h))"

definition unregister_datareader ::
  "CryptoState \<Rightarrow> handle \<Rightarrow> (SecurityException + bool) \<times> CryptoState" where
  "unregister_datareader st h =
     (if HANDLE_NIL = h then (Inl (set_security_error (-1) 0 ''Invalid Crypto Handle''), st)
      else (Inr True, clear_endpoint_data st h))"

section \<open>Token codec\<close>

record BinaryProperty_t =
  bp_name :: string
  bp_value :: octets
  bp_propagate :: bool

record CryptoToken =
  class_id :: string
  properties :: "(string \<times> string) list"
  binary_properties :: "BinaryProperty_t list"

definition Crypto_Token_Class_Id :: string where
  "Crypto_Token_Class_Id = ''DDS:Crypto:AES_GCM_GMAC''"

definition Token_KeyMat_Name :: string where
  "Token_KeyMat_Name = ''dds.cryp.keymat''"

subsection \<open>CDR serialization of the key material\<close>

text \<open>
  Modelled from the spec: the Serializer and the generated \<open>gen_find_size\<close>, \<open>operator<<\<close> and
  \<open>operator>>\<close> of \<open>KeyMaterial_AES_GCM_GMAC\<close>, which are not among the sources. The value of
  the token property is the big-endian, CDR-aligned serialization of the key material: a
  fixed array of octets is written as it is, an octet sequence as its 32-bit length, aligned
  to 4 octets from the start of the buffer, followed by its octets.
\<close>

definition be32 :: "32 word \<Rightarrow> octets" where
  "be32 v = [ucast (drop_bit 24 v), ucast (drop_bit 16 v), ucast (drop_bit 8 v), ucast v]"

definition be32_value :: "octets \<Rightarrow> 32 word" where
  "be32_value bs =
     push_bit 24 (ucast (bs ! 0)) OR push_bit 16 (ucast (bs ! 1)) OR
     push_bit 8 (ucast (bs ! 2)) OR ucast (bs ! 3)"

text \<open>The octets of an array of fixed size \<open>n\<close>.\<close>

definition octet_array :: "nat \<Rightarrow> octets \<Rightarrow> octets" where
  "octet_array n xs = take n (xs @ replicate n 0)"

definition align_pad :: "nat \<Rightarrow> nat \<Rightarrow> nat" where
  "align_pad n pos = (n - pos mod n) mod n"

definition cdr_ulong :: "nat \<Rightarrow> 32 word \<Rightarrow> octets" where
  "cdr_ulong pos v = replicate (align_pad 4 pos) 0 @ be32 v"

definition cdr_octet_seq :: "nat \<Rightarrow> octets \<Rightarrow> octets" where
  "cdr_octet_seq pos xs = cdr_ulong pos (of_nat (length xs)) @ xs"

definition key_to_cdr :: "KeyMaterial \<Rightarrow> octets" where
  "key_to_cdr k =
     (let b1 = octet_array 4 (transformation_kind k);
          b2 = b1 @ cdr_octet_seq (length b1) (master_salt k);
          b3 = b2 @ octet_array 4 (sender_key_id k);
          b4 = b3 @ cdr_octet_seq (length b3) (master_sender_key k);
          b5 = b4 @ octet_array 4 (receiver_specific_key_id k)
      in b5 @ cdr_octet_seq (length b5) (master_receiver_specific_key k))"

text \<open>\<open>gen_find_size\<close> accumulates the size and the alignment padding separately.\<close>

definition find_size_ulong :: "nat \<times> nat \<Rightarrow> nat \<times> nat" where
  "find_size_ulong sp = (case sp of (sz, padding) \<Rightarrow>
     (sz + 4, padding + align_pad 4 (sz + padding)))"

definition find_size_octets :: "nat \<Rightarrow> nat \<times> nat \<Rightarrow> nat \<times> nat" where
  "find_size_octets n sp = (case sp of (sz, padding) \<Rightarrow> (sz + n, padding))"

definition find_size_octet_seq :: "octets \<Rightarrow> nat \<times> nat \<Rightarrow> nat \<times> nat" where
  "find_size_octet_seq xs sp = find_size_octets (length xs) (find_size_ulong sp)"

definition gen_find_size_KeyMaterial :: "KeyMaterial \<Rightarrow> nat \<times> nat \<Rightarrow> nat \<times> nat" where
  "gen_find_size_KeyMaterial k sp =
     find_size_octet_seq (master_receiver_specific_key k)
       (find_size_octets 4
          (find_size_octet_seq (master_sender_key k)
             (find_size_octets 4
                (find_size_octet_seq (master_salt k)
                   (find_size_octets 4 sp)))))"

text \<open>
  \<open>ser << key\<close> into a buffer of \<open>cap\<close> octets: it fails when the buffer is too small,
  otherwise the buffer holds the serialization, followed by what was not written.
\<close>

definition serialize_KeyMaterial :: "nat \<Rightarrow> KeyMaterial \<Rightarrow> octets option" where
  "serialize_KeyMaterial cap k =
     (if length (key_to_cdr k) \<le> cap
      then Some (key_to_cdr k @ replicate (cap - length (key_to_cdr k)) 0)
      else None)"

text \<open>Reading: the state is the number of octets consumed and the octets that remain.\<close>

definition read_octets :: "nat \<Rightarrow> nat \<times> octets \<Rightarrow> (octets \<times> nat \<times> octets) option" where
  "read_octets n s = (case s of (pos, bs) \<Rightarrow>
     if length bs < n then None else Some (take n bs, pos + n, drop n bs))"

definition read_ulong :: "nat \<times> octets \<Rightarrow> (32 word \<times> nat \<times> octets) option" where
  "read_ulong s = (case s of (pos, bs) \<Rightarrow>
     (case read_octets (align_pad 4 pos) (pos, bs) of
        None \<Rightarrow> None
      | Some (pad, s1) \<Rightarrow>
          (case read_octets 4 s1 of
             None \<Rightarrow> None
           | Some (b, s2) \<Rightarrow> Some (be32_value b, s2))))"

definition read_octet_seq :: "nat \<times> octets \<Rightarrow> (octets \<times> nat \<times> octets) option" where
  "read_octet_seq s =
     (case read_ulong s of
        None \<Rightarrow> None
      | Some (n, s1) \<Rightarrow> read_octets (unat n) s1)"

definition deserialize_KeyMaterial :: "octets \<Rightarrow> KeyMaterial option" where
  "deserialize_KeyMaterial bs =
     Option.bind (read_octets 4 (0, bs)) (\<lambda>(kind, s1).
     Option.bind (read_octet_seq s1) (\<lambda>(salt, s2).
     Option.bind (read_octets 4 s2) (\<lambda>(skid, s3).
     Option.bind (read_octet_seq s3) (\<lambda>(msk, s4).
     Option.bind (read_octets 4 s4) (\<lambda>(rkid, s5).
     Option.bind (read_octet_seq s5) (\<lambda>(mrk, s6).
       Some \<lparr>transformation_kind = kind, master_salt = salt, sender_key_id = skid,
             master_sender_key = msk, receiver_specific_key_id = rkid,
             master_receiver_specific_key = mrk\<rparr>))))))"

subsection \<open>keys_to_tokens and tokens_to_keys\<close>

fun keys_to_tokens :: "KeyMaterial list \<Rightarrow> CryptoToken list" where
  "keys_to_tokens [] = []"
| "keys_to_tokens (k # ks) =
     (let (sz, padding) = gen_find_size_KeyMaterial k (0, 0)
      in case serialize_KeyMaterial (sz + padding) k of
           Some v \<Rightarrow>
             \<lparr>class_id = Crypto_Token_Class_Id, properties = [],
              binary_properties =
                [\<lparr>bp_name = Token_KeyMat_Name, bp_value = v, bp_propagate = True\<rparr>]\<rparr>
             # keys_to_tokens ks
         | None \<Rightarrow> keys_to_tokens ks)"

text \<open>
  The inner loop of \<open>tokens_to_keys\<close>: the first property with the key-material name is
  parsed and the loop breaks, whether the parse succeeded or not.
\<close>

fun keymat_of_properties :: "BinaryProperty_t list \<Rightarrow> KeyMaterial option" where
  "keymat_of_properties [] = None"
| "keymat_of_properties (p # ps) =
     (if Token_KeyMat_Name = bp_name p then deserialize_KeyMaterial (bp_value p)
      else keymat_of_properties ps)"

fun tokens_to_keys :: "CryptoToken list \<Rightarrow> KeyMaterial list" where
  "tokens_to_keys [] = []"
| "tokens_to_keys (t # ts) =
     (if Crypto_Token_Class_Id = class_id t
      then (case keymat_of_properties (binary_properties t) of
              Some key \<Rightarrow> key # tokens_to_keys ts
            | None \<Rightarrow> tokens_to_keys ts)
      else tokens_to_keys ts)"

text \<open>
  What the struct and the sequence type guarantee of a key material: arrays of 4 octets and
  sequence lengths that fit the 32-bit length of a sequence.
\<close>

definition wf_KeyMaterial :: "KeyMaterial \<Rightarrow> bool" where
  "wf_KeyMaterial k \<longleftrightarrow>
     length (transformation_kind k) = 4 \<and> length (sender_key_id k) = 4 \<and>
     length (receiver_specific_key_id k) = 4 \<and>
     length (master_salt k) < 2 ^ 32 \<and> length (master_sender_key k) < 2 ^ 32 \<and>
     length (master_receiver_specific_key k) < 2 ^ 32"

subsection \<open>Receiving the tokens of a remote participant\<close>

definition set_remote_participant_crypto_tokens ::
  "CryptoState \<Rightarrow> handle \<Rightarrow> handle \<Rightarrow> CryptoToken list
   \<Rightarrow> (SecurityException + bool) \<times> CryptoState" where
  "set_remote_participant_crypto_tokens st local_participant_crypto remote_participant_crypto
       remote_participant_tokens =
     (if HANDLE_NIL = local_participant_crypto
      then (Inl (set_security_error (-1) 0 ''Invalid local participant handle''), st)
      else if HANDLE_NIL = remote_participant_crypto
      then (Inl (set_security_error (-1) 0 ''Invalid remote participant handle''), st)
      else (Inr True,
            st\<lparr>keys := (keys st)(remote_participant_crypto \<mapsto>
                      tokens_to_keys remote_participant_tokens)\<rparr>))"

section \<open>Transform\<close>

definition encrypts :: "KeyMaterial \<Rightarrow> bool" where
  "encrypts k =
     (let kind = transformation_kind k
      in kind ! 0 = 0 \<and> kind ! 1 = 0 \<and> kind ! 2 = 0 \<and>
         (kind ! TransformKindIndex = CRYPTO_TRANSFORMATION_KIND_AES128_GCM \<or>
          kind ! TransformKindIndex = CRYPTO_TRANSFORMATION_KIND_AES256_GCM))"

definition authenticates :: "KeyMaterial \<Rightarrow> bool" where
  "authenticates k =
     (let kind = transformation_kind k
      in kind ! 0 = 0 \<and> kind ! 1 = 0 \<and> kind ! 2 = 0 \<and>
         (kind ! TransformKindIndex = CRYPTO_TRANSFORMATION_KIND_AES128_GMAC \<or>
          kind ! TransformKindIndex = CRYPTO_TRANSFORMATION_KIND_AES256_GMAC))"

definition CRYPTO_CONTENT_ADDED_LENGTH :: nat where
  "CRYPTO_CONTENT_ADDED_LENGTH = 4"

definition CRYPTO_HEADER_LENGTH :: nat where
  "CRYPTO_HEADER_LENGTH = 20"

text \<open>
  Modelled from the spec: the default-constructed \<open>Session\<close> that \<open>sessions_[sKey]\<close> inserts
  on the first use of a key (the constructor is in the header, which is not among the
  sources): no key derived yet, counter 0.
\<close>

definition Session_default :: Session where
  "Session_default =
     \<lparr>s_id = replicate 4 0, s_iv_suffix = replicate 8 0, s_key = [], s_counter = 0\<rparr>"

text \<open>The \<open>CryptoFooter footer;\<close> declared by the encode operations before the transform.\<close>

definition CryptoFooter_uninit :: "env \<Rightarrow> CryptoFooter" where
  "CryptoFooter_uninit e = \<lparr>common_mac = uninit_mac e, receiver_specific_macs = []\<rparr>"

text \<open>The message recorded when a step of the cipher fails, in \<open>encrypt\<close> and \<open>authtag\<close>.\<close>

fun encrypt_failure :: "evp_failure \<Rightarrow> string" where
  "encrypt_failure EVP_Init = ''EVP_EncryptInit_ex''"
| "encrypt_failure EVP_Update = ''EVP_EncryptUpdate''"
| "encrypt_failure EVP_Final = ''EVP_EncryptFinal_ex''"
| "encrypt_failure EVP_Ctrl = ''EVP_CIPHER_CTX_ctrl''"

text \<open>The same in \<open>decrypt\<close> and \<open>verify\<close>.\<close>

fun decrypt_failure :: "evp_failure \<Rightarrow> string" where
  "decrypt_failure EVP_Init = ''EVP_DecryptInit_ex''"
| "decrypt_failure EVP_Update = ''EVP_DecryptUpdate''"
| "decrypt_failure EVP_Ctrl = ''EVP_CIPHER_CTX_ctrl''"
| "decrypt_failure EVP_Final = ''EVP_DecryptFinal_ex''"

definition encrypt ::
  "env \<Rightarrow> KeyMaterial \<Rightarrow> Session \<Rightarrow> octets \<Rightarrow> CryptoFooter \<Rightarrow> nat
   \<Rightarrow> (SecurityException + CryptoHeader \<times> CryptoFooter \<times> octets) \<times> Session \<times> nat" where
  "encrypt e master sess plain footer pos =
     (let (sess', header, pos') = encauth_setup e master sess plain pos;
          iv = s_id sess' @ s_iv_suffix sess'
      in if fake_encryption e then (Inr (header, footer, plain), sess', pos')
         else (case gcm_encrypt e (s_key sess') iv plain of
                 Inl f \<Rightarrow> (Inl (set_security_error (-1) 0 (encrypt_failure f)), sess', pos')
               | Inr (out, tag) \<Rightarrow> (Inr (header, footer\<lparr>common_mac := tag\<rparr>, out), sess', pos')))"

definition authtag ::
  "env \<Rightarrow> KeyMaterial \<Rightarrow> Session \<Rightarrow> octets \<Rightarrow> CryptoFooter \<Rightarrow> nat
   \<Rightarrow> (SecurityException + CryptoHeader \<times> CryptoFooter) \<times> Session \<times> nat" where
  "authtag e master sess plain footer pos =
     (let (sess', header, pos') = encauth_setup e master sess plain pos;
          iv = s_id sess' @ s_iv_suffix sess'
      in (case gmac_tag e (s_key sess') iv plain of
            Inl f \<Rightarrow> (Inl (set_security_error (-1) 0 (encrypt_failure f)), sess', pos')
          | Inr tag \<Rightarrow> (Inr (header, footer\<lparr>common_mac := tag\<rparr>), sess', pos')))"

subsection \<open>Layout of the framing\<close>

text \<open>
  Modelled from the spec: the Serializer and the generated \<open>gen_find_size\<close> and \<open>operator<<\<close>
  of \<open>CryptoHeader\<close>, \<open>CryptoFooter\<close> and \<open>RTPS::SubmessageHeader\<close>, which are not among the
  sources. CryptoHeader (20 octets): transformation_kind[4], transformation_key_id[4],
  session_id[4], iv_suffix[8]. CryptoFooter: common_mac[16], then the 32-bit count of
  receiver-specific MACs and the MACs. A submessage header is the id, the flags and the
  16-bit length; all of it big-endian CDR.
\<close>

definition cdr_CryptoHeader :: "CryptoHeader \<Rightarrow> octets" where
  "cdr_CryptoHeader h =
     octet_array 4 (tid_transformation_kind h) @ octet_array 4 (tid_transformation_key_id h) @
     octet_array 4 (session_id h) @ octet_array 8 (initialization_vector_suffix h)"

definition gen_find_size_CryptoHeader :: "CryptoHeader \<Rightarrow> nat \<times> nat \<Rightarrow> nat \<times> nat" where
  "gen_find_size_CryptoHeader h sp =
     find_size_octets 8 (find_size_octets 4 (find_size_octets 4 (find_size_octets 4 sp)))"

definition cdr_CryptoFooter :: "nat \<Rightarrow> CryptoFooter \<Rightarrow> octets" where
  "cdr_CryptoFooter pos f =
     octet_array 16 (common_mac f) @
     cdr_ulong (pos + 16) (of_nat (length (receiver_specific_macs f))) @
     concat (map (\<lambda>(key_id, mac). octet_array 4 key_id @ octet_array 16 mac)
               (receiver_specific_macs f))"

definition gen_find_size_CryptoFooter :: "CryptoFooter \<Rightarrow> nat \<times> nat \<Rightarrow> nat \<times> nat" where
  "gen_find_size_CryptoFooter f sp =
     find_size_octets (20 * length (receiver_specific_macs f))
       (find_size_ulong (find_size_octets 16 sp))"

definition cdr_SubmessageHeader :: "octet \<Rightarrow> octet \<Rightarrow> 16 word \<Rightarrow> octets" where
  "cdr_SubmessageHeader submessageId flags submessageLength =
     [submessageId, flags, ucast (drop_bit 8 submessageLength), ucast submessageLength]"

text \<open>
  The encoded buffer is given its length first and then written into from its start: what
  does not fit is not written, what is not written stays as it was allocated
  (\<open>buffer_fill\<close>).
\<close>

definition written_buffer :: "env \<Rightarrow> nat \<Rightarrow> octets \<Rightarrow> octets" where
  "written_buffer e cap w = take cap (w @ map (buffer_fill e) [length w ..< cap])"

text \<open>
  \<open>ser.align_w(4)\<close> after \<open>pos\<close> octets: the padding up to the next multiple of 4. How many
  octets it writes follows from the position; which octets it writes is not in the sources
  and is left to \<open>align_fill\<close>.
\<close>

definition align_w :: "env \<Rightarrow> nat \<Rightarrow> octets" where
  "align_w e pos = map (align_fill e) [0 ..< align_pad 4 pos]"

subsection \<open>encode_serialized_payload\<close>

text \<open>The end of \<open>encode_serialized_payload\<close>: sizing the buffer and writing it.\<close>

definition serialize_payload ::
  "env \<Rightarrow> CryptoHeader \<Rightarrow> CryptoFooter \<Rightarrow> bool \<Rightarrow> octets \<Rightarrow> octets" where
  "serialize_payload e header footer encrypted pOut =
     (let (sz0, padding0) = gen_find_size_CryptoHeader header (0, 0);
          sz1 = (if encrypted then sz0 + CRYPTO_CONTENT_ADDED_LENGTH else sz0);
          sz2 = sz1 + length pOut;
          (sz3, padding3) = gen_find_size_CryptoFooter footer (sz2, padding0);
          w1 = cdr_CryptoHeader header;
          w2 = (if encrypted then w1 @ cdr_ulong (length w1) (of_nat (length pOut)) else w1);
          w3 = w2 @ pOut
      in written_buffer e (sz3 + padding3) (w3 @ cdr_CryptoFooter (length w3) footer))"

text \<open>
  The part of \<open>encode_serialized_payload\<close> that follows the choice of the key: the transform
  with the key \<open>key\<close> on the session \<open>sessions_[sKey]\<close>, and the serialization.
\<close>

definition transform_payload ::
  "env \<Rightarrow> CryptoState \<Rightarrow> handle \<times> nat \<Rightarrow> KeyMaterial \<Rightarrow> octets
   \<Rightarrow> (SecurityException + octets) \<times> CryptoState" where
  "transform_payload e st sKey key plain_buffer =
     (if encrypts key
      then
        let (sess, sm) = map_index Session_default (sessions st) sKey;
            (r, sess', pos') =
              encrypt e key sess plain_buffer (CryptoFooter_uninit e) (rand_pos st);
            st' = st\<lparr>sessions := sm(sKey \<mapsto> sess'), rand_pos := pos'\<rparr>
        in (case r of
              Inl ex \<Rightarrow> (Inl ex, st')
            | Inr (header, footer, out) \<Rightarrow> (Inr (serialize_payload e header footer True out), st'))
      else if authenticates key
      then
        let (sess, sm) = map_index Session_default (sessions st) sKey;
            (r, sess', pos') =
              authtag e key sess plain_buffer (CryptoFooter_uninit e) (rand_pos st);
            st' = st\<lparr>sessions := sm(sKey \<mapsto> sess'), rand_pos := pos'\<rparr>
        in (case r of
              Inl ex \<Rightarrow> (Inl ex, st')
            | Inr (header, footer) \<Rightarrow>
                (Inr (serialize_payload e header footer False plain_buffer), st'))
      else (Inl (set_security_error (-1) 0 ''Key transform kind unrecognized''), st))"

definition encode_serialized_payload ::
  "env \<Rightarrow> CryptoState \<Rightarrow> octets \<Rightarrow> handle \<Rightarrow> (SecurityException + octets) \<times> CryptoState" where
  "encode_serialized_payload e st plain_buffer sending_datawriter_crypto =
     (if HANDLE_NIL = sending_datawriter_crypto
      then (Inl (set_security_error (-1) 0 ''Invalid datawriter handle''), st)
      else
        (case keys st sending_datawriter_crypto of
           None \<Rightarrow> (Inr plain_buffer, st)
         | Some keyseq \<Rightarrow>
             let (opts, eo) =
                   map_index (default_EncryptOpts e) (encrypt_options st)
                     sending_datawriter_crypto;
                 st1 = st\<lparr>encrypt_options := eo\<rparr>
             in if \<not> o_payload opts then (Inr plain_buffer, st1)
                else if length keyseq = 0 then (Inr plain_buffer, st1)
                else
                  let key_idx = (if length keyseq \<ge> 2 then 1 else 0);
                      sKey = (sending_datawriter_crypto, key_idx)
                  in transform_payload e st1 sKey (keyseq ! key_idx) plain_buffer))"

subsection \<open>encode_submessage\<close>

text \<open>
  The header of the plain submessage as \<open>encode_submessage\<close> reads it: the flags octet and
  the 16-bit length, in the byte order bit 0 of the flags selects. A read past the end of
  the buffer fails and leaves the variable as it was.
\<close>

definition submessage_flags :: "env \<Rightarrow> octets \<Rightarrow> octet" where
  "submessage_flags e p = (if 2 \<le> length p then p ! 1 else uninit_octet e)"

definition submessage_length :: "env \<Rightarrow> octets \<Rightarrow> 16 word" where
  "submessage_length e p =
     (if 4 \<le> length p
      then (if submessage_flags e p AND 1 \<noteq> 0
            then push_bit 8 (ucast (p ! 3)) OR ucast (p ! 2)
            else push_bit 8 (ucast (p ! 2)) OR ucast (p ! 3))
      else uninit_ushort e)"

text \<open>
  The patch of a zero length: \<open>len = length - 4\<close> in 32 bits, its low octet stored at
  \<open>2 + !(flags & 1)\<close> and the next octet at \<open>2 + (flags & 1)\<close>. An index past the end of the
  buffer is outside what the source defines; the list update leaves the buffer as it is
  there.
\<close>

definition patch_submessage_length :: "env \<Rightarrow> octets \<Rightarrow> octets" where
  "patch_submessage_length e pOut =
     (if submessage_length e pOut = 0
      then
        let len = (of_nat (length pOut) - 4 :: 32 word);
            bit0 = (if submessage_flags e pOut AND 1 \<noteq> 0 then 1 else 0 :: nat);
            out = pOut[2 + (1 - bit0) := ucast (len AND 0xff)]
        in out[2 + bit0 := ucast (drop_bit 8 len AND 0xff)]
      else pOut)"

text \<open>The end of \<open>encode_submessage\<close>: sizing the buffer and writing the three parts.\<close>

definition frame_submessage ::
  "env \<Rightarrow> bool \<Rightarrow> CryptoHeader \<Rightarrow> CryptoFooter \<Rightarrow> octets \<Rightarrow> octets" where
  "frame_submessage e authOnly header footer pOut =
     (let (sz0, padding0) = gen_find_size_CryptoHeader header (4, 0);
          hdrLen = (of_nat (sz0 + padding0 - 4) :: 16 word);
          sz1 = (if \<not> authOnly then sz0 + 8 else sz0);
          sz2 = sz1 + length pOut;
          padding2 = (if (sz2 + padding0) mod 4 \<noteq> 0
                      then padding0 + (4 - (sz2 + padding0) mod 4) else padding0);
          sz3 = sz2 + 4;
          preFooter = sz3 + padding2;
          (sz4, padding4) = gen_find_size_CryptoFooter footer (sz3, padding2);
          w1 = cdr_SubmessageHeader (SEC_PREFIX e) 0 hdrLen @ cdr_CryptoHeader header;
          bodyLen = (of_nat (4 + length pOut) :: 16 word) +
                    (if length pOut mod 4 \<noteq> 0 then of_nat (4 - length pOut mod 4) else 0);
          w2 = (if \<not> authOnly
                then w1 @ cdr_SubmessageHeader (SEC_BODY e) 0 bodyLen @
                     cdr_ulong (length w1 + 4) (of_nat (length pOut))
                else w1);
          w3 = w2 @ pOut;
          w4 = w3 @ align_w e (length w3);
          w5 = w4 @
               cdr_SubmessageHeader (SEC_POSTFIX e) 0 (of_nat (sz4 + padding4 - preFooter)) @
               cdr_CryptoFooter (length w4 + 4) footer
      in written_buffer e (sz4 + padding4) w5)"

definition SUBMSG_KEY_IDX :: nat where
  "SUBMSG_KEY_IDX = 0"

definition encode_submessage ::
  "env \<Rightarrow> CryptoState \<Rightarrow> octets \<Rightarrow> handle \<Rightarrow> (SecurityException + octets) \<times> CryptoState" where
  "encode_submessage e st plain_rtps_submessage sender_handle =
     (case keys st sender_handle of
        None \<Rightarrow> (Inr plain_rtps_submessage, st)
      | Some keyseq \<Rightarrow>
          if length keyseq = 0 then (Inr plain_rtps_submessage, st)
          else
            let sKey = (sender_handle, SUBMSG_KEY_IDX)
            in if encrypts (keyseq ! SUBMSG_KEY_IDX)
               then
                 let (sess, sm) = map_index Session_default (sessions st) sKey;
                     (r, sess', pos') =
                       encrypt e (keyseq ! SUBMSG_KEY_IDX) sess plain_rtps_submessage
                         (CryptoFooter_uninit e) (rand_pos st);
                     st' = st\<lparr>sessions := sm(sKey \<mapsto> sess'), rand_pos := pos'\<rparr>
                 in (case r of
                       Inl ex \<Rightarrow> (Inl ex, st')
                     | Inr (header, footer, out) \<Rightarrow>
                         (Inr (frame_submessage e False header footer out), st'))
               else if authenticates (keyseq ! SUBMSG_KEY_IDX)
               then
                 let pOut = patch_submessage_length e plain_rtps_submessage;
                     (sess, sm) = map_index Session_default (sessions st) sKey;
                     (r, sess', pos') =
                       authtag e (keyseq ! SUBMSG_KEY_IDX) sess pOut
                         (CryptoFooter_uninit e) (rand_pos st);
                     st' = st\<lparr>sessions := sm(sKey \<mapsto> sess'), rand_pos := pos'\<rparr>
                 in (case r of
                       Inl ex \<Rightarrow> (Inl ex, st')
                     | Inr (header, footer) \<Rightarrow>
                         (Inr (frame_submessage e True header footer pOut), st'))
               else (Inl (set_security_error (-1) 0 ''Key transform kind unrecognized''), st))"

text \<open>
  The handle \<open>encode_datawriter_submessage\<close> and \<open>encode_datareader_submessage\<close> encode
  with: the single receiver when the sender holds only the volatile placeholder.
\<close>

definition encode_handle_for :: "env \<Rightarrow> CryptoState \<Rightarrow> handle \<Rightarrow> handle list \<Rightarrow> handle" where
  "encode_handle_for e st sending receiving_list =
     (if length receiving_list = 1
      then (case keys st sending of
              None \<Rightarrow> sending
            | Some ks \<Rightarrow>
                if length ks = 1 \<and> is_volatile_placeholder e (ks ! 0) then receiving_list ! 0
                else sending)
      else sending)"

text \<open>The result carries the encoded submessage and the updated list index.\<close>

definition encode_datawriter_submessage ::
  "env \<Rightarrow> CryptoState \<Rightarrow> octets \<Rightarrow> handle \<Rightarrow> handle list \<Rightarrow> int
   \<Rightarrow> (SecurityException + octets \<times> int) \<times> CryptoState" where
  "encode_datawriter_submessage e st plain_rtps_submessage sending_datawriter_crypto
       receiving_datareader_crypto_list receiving_datareader_crypto_list_index =
     (let len = int (length receiving_datareader_crypto_list)
      in if HANDLE_NIL = sending_datawriter_crypto
         then (Inl (set_security_error (-1) 0 ''Invalid DataWriter handle''), st)
         else if receiving_datareader_crypto_list_index < 0
         then (Inl (set_security_error (-1) 0 ''Negative list index''), st)
         else if len \<noteq> 0 \<and> receiving_datareader_crypto_list_index \<ge> len
         then (Inl (set_security_error (-1) 0 ''List index too large''), st)
         else if HANDLE_NIL \<in> set receiving_datareader_crypto_list
         then (Inl (set_security_error (-1) 0 ''Invalid DataReader handle in list''), st)
         else
           let (opts, eo) =
                 map_index (default_EncryptOpts e) (encrypt_options st)
                   sending_datawriter_crypto;
               st1 = st\<lparr>encrypt_options := eo\<rparr>
           in if \<not> o_submessage opts then (Inr (plain_rtps_submessage, len), st1)
              else
                let encode_handle =
                      encode_handle_for e st1 sending_datawriter_crypto
                        receiving_datareader_crypto_list;
                    (r, st2) = encode_submessage e st1 plain_rtps_submessage encode_handle
                in (case r of
                      Inl ex \<Rightarrow> (Inl ex, st2)
                    | Inr enc \<Rightarrow> (Inr (enc, len), st2)))"

definition encode_datareader_submessage ::
  "env \<Rightarrow> CryptoState \<Rightarrow> octets \<Rightarrow> handle \<Rightarrow> handle list
   \<Rightarrow> (SecurityException + octets) \<times> CryptoState" where
  "encode_datareader_submessage e st plain_rtps_submessage sending_datareader_crypto
       receiving_datawriter_crypto_list =
     (if HANDLE_NIL = sending_datareader_crypto
      then (Inl (set_security_error (-1) 0 ''Invalid DataReader handle''), st)
      else if HANDLE_NIL \<in> set receiving_datawriter_crypto_list
      then (Inl (set_security_error (-1) 0 ''Invalid DataWriter handle in list''), st)
      else encode_submessage e st plain_rtps_submessage
             (encode_handle_for e st sending_datareader_crypto
                receiving_datawriter_crypto_list))"

subsection \<open>Sender key lookup\<close>

definition matches :: "KeyMaterial \<Rightarrow> CryptoHeader \<Rightarrow> bool" where
  "matches k h =
     (memcmp_eq 4 (transformation_kind k) (tid_transformation_kind h) \<and>
      memcmp_eq 4 (sender_key_id k) (tid_transformation_key_id h))"

text \<open>\<open>participant_to_entity_.equal_range(p)\<close>: the entities stored under \<open>p\<close>, in order.\<close>

definition equal_range :: "(handle \<times> EntityInfo) list \<Rightarrow> handle \<Rightarrow> EntityInfo list" where
  "equal_range m p = map snd (filter (\<lambda>(p', ei). p' = p) m)"

text \<open>The inner loop of \<open>preprocess_secure_submsg\<close>: is there a key that matches?\<close>

fun key_matches :: "KeyMaterial list \<Rightarrow> CryptoHeader \<Rightarrow> bool" where
  "key_matches [] ch = False"
| "key_matches (k # keyseq) ch = (if matches k ch then True else key_matches keyseq ch)"

text \<open>
  The outer loop over the entities of the sending participant. The three reference
  parameters are passed in and, on success, returned as the operation leaves them.
\<close>

fun preprocess_entities ::
  "CryptoState \<Rightarrow> CryptoHeader \<Rightarrow> handle \<times> handle \<times> SecureSubmessageCategory_t
   \<Rightarrow> EntityInfo list
   \<Rightarrow> SecurityException + handle \<times> handle \<times> SecureSubmessageCategory_t" where
  "preprocess_entities st ch outs [] =
     Inl (set_security_error_ids (-2) 1 ''Crypto Key not registered''
            (tid_transformation_kind ch) (tid_transformation_key_id ch))"
| "preprocess_entities st ch outs (ei # rest) =
     (case keys st (ei_handle ei) of
        None \<Rightarrow> preprocess_entities st ch outs rest
      | Some keyseq \<Rightarrow>
          if key_matches keyseq ch
          then (case outs of (datawriter_crypto, datareader_crypto, cat) \<Rightarrow>
                  (case ei_category ei of
                     DATAWRITER_SUBMESSAGE \<Rightarrow>
                       Inr (ei_handle ei, datareader_crypto, DATAWRITER_SUBMESSAGE)
                   | DATAREADER_SUBMESSAGE \<Rightarrow>
                       Inr (datawriter_crypto, ei_handle ei, DATAREADER_SUBMESSAGE)
                   | INFO_SUBMESSAGE \<Rightarrow>
                       Inr (datawriter_crypto, datareader_crypto, INFO_SUBMESSAGE)))
          else preprocess_entities st ch outs rest)"

definition preprocess_secure_submsg ::
  "env \<Rightarrow> CryptoState \<Rightarrow> handle \<times> handle \<times> SecureSubmessageCategory_t \<Rightarrow> octets
   \<Rightarrow> handle \<Rightarrow> handle
   \<Rightarrow> SecurityException + handle \<times> handle \<times> SecureSubmessageCategory_t" where
  "preprocess_secure_submsg e st outs encoded_rtps_submessage receiving_participant_crypto
       sending_participant_crypto =
     (if HANDLE_NIL = receiving_participant_crypto
      then Inl (set_security_error (-1) 0 ''Invalid Receiving Participant'')
      else if HANDLE_NIL = sending_participant_crypto
      then Inl (set_security_error (-1) 0 ''Invalid Sending Participant'')
      else
        let ch = p_header (parse_submessage e encoded_rtps_submessage)
        in preprocess_entities st ch outs
             (equal_range (participant_to_entity st) sending_participant_crypto))"

subsection \<open>Decoding\<close>

definition get_key :: "env \<Rightarrow> KeyMaterial \<Rightarrow> Session \<Rightarrow> CryptoHeader \<Rightarrow> octets \<times> Session" where
  "get_key e master sess header =
     (if length (s_key sess) \<noteq> 0 \<and> memcmp_eq 4 (s_id sess) (session_id header)
      then (s_key sess, sess)
      else
        let sess' = derive_key e master (sess\<lparr>s_id := session_id header, s_key := []\<rparr>)
        in (s_key sess', sess'))"

definition decrypt ::
  "env \<Rightarrow> KeyMaterial \<Rightarrow> Session \<Rightarrow> octets \<Rightarrow> CryptoHeader \<Rightarrow> CryptoFooter
   \<Rightarrow> (SecurityException + octets) \<times> Session" where
  "decrypt e master sess ciphertext header footer =
     (let (sess_key, sess') = get_key e master sess header
      in if length sess_key = 0
         then (Inl (set_security_error (-1) 0 ''no session key''), sess')
         else if transformation_kind master ! TransformKindIndex \<noteq>
                 CRYPTO_TRANSFORMATION_KIND_AES256_GCM
         then (Inl (set_security_error (-1) 0 ''unsupported transformation kind''), sess')
         else if fake_encryption e then (Inr ciphertext, sess')
         else (case gcm_decrypt e sess_key
                      (session_id header @ initialization_vector_suffix header)
                      ciphertext (common_mac footer) of
                 Inl f \<Rightarrow> (Inl (set_security_error (-1) 0 (decrypt_failure f)), sess')
               | Inr out \<Rightarrow> (Inr out, sess')))"

definition verify ::
  "env \<Rightarrow> KeyMaterial \<Rightarrow> Session \<Rightarrow> octets \<Rightarrow> CryptoHeader \<Rightarrow> CryptoFooter
   \<Rightarrow> (SecurityException + octets) \<times> Session" where
  "verify e master sess inp header footer =
     (let (sess_key, sess') = get_key e master sess header
      in if length sess_key = 0
         then (Inl (set_security_error (-1) 0 ''no session key''), sess')
         else if transformation_kind master ! TransformKindIndex \<noteq>
                 CRYPTO_TRANSFORMATION_KIND_AES256_GMAC
         then (Inl (set_security_error (-1) 0 ''unsupported transformation kind''), sess')
         else (case gmac_verify e sess_key
                      (session_id header @ initialization_vector_suffix header)
                      inp (common_mac footer) of
                 Some f \<Rightarrow> (Inl (set_security_error (-1) 0 (decrypt_failure f)), sess')
               | None \<Rightarrow> (Inr inp, sess')))"

text \<open>
  The loop of \<open>decode_submessage\<close> over the keys of the sender, from index \<open>i\<close> on: the first
  key that matches the header decides the outcome.
\<close>

fun decode_submessage_keys ::
  "env \<Rightarrow> CryptoState \<Rightarrow> handle \<Rightarrow> parsed_submsg \<Rightarrow> KeyMaterial list \<Rightarrow> nat
   \<Rightarrow> (SecurityException + octets) \<times> CryptoState" where
  "decode_submessage_keys e st sender_handle p [] i =
     (Inl (set_security_error (-2) 1 ''Crypto Key not found''), st)"
| "decode_submessage_keys e st sender_handle p (k # keyseq) i =
     (if matches k (p_header p)
      then
        let sKey = (sender_handle, i)
        in if encrypts k
           then
             let (sess, sm) = map_index Session_default (sessions st) sKey;
                 (r, sess') = decrypt e k sess (p_ciphertext p) (p_header p) (p_footer p)
             in (r, st\<lparr>sessions := sm(sKey \<mapsto> sess')\<rparr>)
           else if authenticates k
           then
             let (sess, sm) = map_index Session_default (sessions st) sKey;
                 (r, sess') = verify e k sess (p_authenticated p) (p_header p) (p_footer p)
             in (r, st\<lparr>sessions := sm(sKey \<mapsto> sess')\<rparr>)
           else (Inl (set_security_error (-2) 2 ''Key transform kind unrecognized''), st)
      else decode_submessage_keys e st sender_handle p keyseq (i + 1))"

definition decode_submessage ::
  "env \<Rightarrow> CryptoState \<Rightarrow> octets \<Rightarrow> handle \<Rightarrow> (SecurityException + octets) \<times> CryptoState" where
  "decode_submessage e st encoded_rtps_submessage sender_handle =
     (let p = parse_submessage e encoded_rtps_submessage;
          (keyseq, km) = map_index [] (keys st) sender_handle
      in decode_submessage_keys e (st\<lparr>keys := km\<rparr>) sender_handle p keyseq 0)"

definition decode_datawriter_submessage ::
  "env \<Rightarrow> CryptoState \<Rightarrow> octets \<Rightarrow> handle \<Rightarrow> handle
   \<Rightarrow> (SecurityException + octets) \<times> CryptoState" where
  "decode_datawriter_submessage e st encoded_rtps_submessage receiving_datareader_crypto
       sending_datawriter_crypto =
     (if HANDLE_NIL = sending_datawriter_crypto
      then (Inl (set_security_error (-1) 0 ''Invalid Datawriter handle''), st)
      else decode_submessage e st encoded_rtps_submessage sending_datawriter_crypto)"

definition decode_datareader_submessage ::
  "env \<Rightarrow> CryptoState \<Rightarrow> octets \<Rightarrow> handle \<Rightarrow> handle
   \<Rightarrow> (SecurityException + octets) \<times> CryptoState" where
  "decode_datareader_submessage e st encoded_rtps_submessage receiving_datawriter_crypto
       sending_datareader_crypto =
     (if HANDLE_NIL = sending_datareader_crypto
      then (Inl (set_security_error (-1) 0 ''Invalid Datareader handle''), st)
      else decode_submessage e st encoded_rtps_submessage sending_datareader_crypto)"

text \<open>The loop of \<open>decode_serialized_payload\<close> over the keys of the sending writer.\<close>

fun decode_payload_keys ::
  "env \<Rightarrow> CryptoState \<Rightarrow> handle \<Rightarrow> parsed_submsg \<Rightarrow> KeyMaterial list \<Rightarrow> nat
   \<Rightarrow> (SecurityException + octets) \<times> CryptoState" where
  "decode_payload_keys e st sending_datawriter_crypto p [] i =
     (Inl (set_security_error (-3) 1 ''Crypto Key not found''), st)"
| "decode_payload_keys e st sending_datawriter_crypto p (k # keyseq) i =
     (if matches k (p_header p)
      then
        let sKey = (sending_datawriter_crypto, i)
        in if encrypts k
           then
             let (sess, sm) = map_index Session_default (sessions st) sKey;
                 (r, sess') = decrypt e k sess (p_ciphertext p) (p_header p) (p_footer p)
             in (r, st\<lparr>sessions := sm(sKey \<mapsto> sess')\<rparr>)
           else if authenticates k
           then (Inl (set_security_error (-3) 3
                        ''Auth-only payload transformation not supported (DDSSEC12-59)''), st)
           else (Inl (set_security_error (-3) 2 ''Key transform kind unrecognized''), st)
      else decode_payload_keys e st sending_datawriter_crypto p keyseq (i + 1))"

definition decode_serialized_payload ::
  "env \<Rightarrow> CryptoState \<Rightarrow> octets \<Rightarrow> handle \<Rightarrow> handle
   \<Rightarrow> (SecurityException + octets) \<times> CryptoState" where
  "decode_serialized_payload e st encoded_buffer receiving_datareader_crypto
       sending_datawriter_crypto =
     (if HANDLE_NIL = sending_datawriter_crypto
      then (Inl (set_security_error (-1) 0 ''Invalid Datawriter handle''), st)
      else
        let (opts, eo) =
              map_index (default_EncryptOpts e) (encrypt_options st) sending_datawriter_crypto;
            st1 = st\<lparr>encrypt_options := eo\<rparr>
        in if \<not> o_payload opts then (Inr encoded_buffer, st1)
           else
             let p = parse_payload e encoded_buffer;
                 (keyseq, km) = map_index [] (keys st1) sending_datawriter_crypto
             in decode_payload_keys e (st1\<lparr>keys := km\<rparr>) sending_datawriter_crypto p keyseq 0)"

section \<open>Properties named by the claims\<close>

text \<open>The length \<open>gen_find_size\<close> has counted: size plus padding.\<close>

definition sp_total :: "nat \<times> nat \<Rightarrow> nat" where
  "sp_total sp = fst sp + snd sp"

text \<open>
  The match as the specification words it, not taken from \<open>matches\<close>: the
  \<open>transformation_kind\<close> octets of the key equal those of the transform identifier of the
  header, and the \<open>sender_key_id\<close> octets of the key equal its \<open>transformation_key_id\<close>
  octets. Both are arrays of 4 octets in the code; a list stands for its first 4 octets.
\<close>

definition same_transform_identifier :: "KeyMaterial \<Rightarrow> CryptoHeader \<Rightarrow> bool" where
  "same_transform_identifier k ch =
     (take 4 (transformation_kind k) = take 4 (tid_transformation_kind ch) \<and>
      take 4 (sender_key_id k) = take 4 (tid_transformation_key_id ch))"

text \<open>
  An entity has a matching key: it has a key list and one of its keys has the transform
  identifier of the header.
\<close>

definition has_matching_key :: "CryptoState \<Rightarrow> CryptoHeader \<Rightarrow> EntityInfo \<Rightarrow> bool" where
  "has_matching_key st ch ei =
     (case keys st (ei_handle ei) of
        None \<Rightarrow> False
      | Some keyseq \<Rightarrow> list_ex (\<lambda>k. same_transform_identifier k ch) keyseq)"

text \<open>
  The session that \<open>sessions_[k]\<close> yields: the one stored under \<open>k\<close>, a default-constructed
  one when there is none.
\<close>

definition session_before :: "CryptoState \<Rightarrow> handle \<times> nat \<Rightarrow> Session" where
  "session_before st k = (case sessions st k of None \<Rightarrow> Session_default | Some s \<Rightarrow> s)"

text \<open>
  The first key of a key list that has the transform identifier of the header is the key at
  index \<open>i\<close>.
\<close>

definition first_match_at :: "KeyMaterial list \<Rightarrow> CryptoHeader \<Rightarrow> nat \<Rightarrow> bool" where
  "first_match_at ks ch i =
     (i < length ks \<and> same_transform_identifier (ks ! i) ch \<and>
      \<not> list_ex (\<lambda>k. same_transform_identifier k ch) (take i ks))"

text \<open>
  A session re-keyed for the header: it is as it was, or only its id and its key have
  changed and the id is the session id of the header.
\<close>

definition rekeyed :: "Session \<Rightarrow> CryptoHeader \<Rightarrow> Session \<Rightarrow> bool" where
  "rekeyed base ch s =
     (s = base \<or> s = base\<lparr>s_id := session_id ch, s_key := s_key s\<rparr>)"

section \<open>Concrete inputs\<close>

text \<open>
  An environment with toy primitives, used to run the operations on concrete inputs: the
  "hash" and the "HMAC" return 32 octets taken from their inputs, the cipher flips bits and
  returns a constant tag, the parse cuts the buffer at the offsets of the framing.
\<close>

definition wit_env :: env where
  "wit_env = \<lparr>rnd = (\<lambda>n. of_nat n), ssl_hash = (\<lambda>d. Some (take 32 (d @ replicate 32 7))),
     hmac_sha256 = (\<lambda>k d. Signed (take 32 (k @ d @ replicate 32 9))),
     gcm_encrypt = (\<lambda>k iv p. Inr (map (\<lambda>b. b XOR 0x5a) p, replicate 16 1)),
     gmac_tag = (\<lambda>k iv p. Inr (replicate 16 2)),
     gcm_decrypt = (\<lambda>k iv c t. if t = replicate 16 1 then Inr (map (\<lambda>b. b XOR 0x5a) c)
                                 else Inl EVP_Final),
     gmac_verify = (\<lambda>k iv p t. if t = replicate 16 2 then None else Some EVP_Final),
     fake_encryption = False,
     parse_submessage = (\<lambda>bs. \<lparr>p_header = \<lparr>tid_transformation_kind = take 4 (drop 4 bs),
          tid_transformation_key_id = take 4 (drop 8 bs), session_id = take 4 (drop 12 bs),
          initialization_vector_suffix = take 8 (drop 16 bs)\<rparr>,
        p_footer = \<lparr>common_mac = take 16 (drop (length bs - 20) bs), receiver_specific_macs = []\<rparr>,
        p_ciphertext = drop 32 (take (length bs - 24) bs),
        p_authenticated = drop 24 (take (length bs - 24) bs)\<rparr>),
     parse_payload = (\<lambda>bs. \<lparr>p_header = \<lparr>tid_transformation_kind = take 4 bs,
          tid_transformation_key_id = take 4 (drop 4 bs), session_id = take 4 (drop 8 bs),
          initialization_vector_suffix = take 8 (drop 12 bs)\<rparr>,
        p_footer = \<lparr>common_mac = take 16 (drop (length bs - 20) bs), receiver_specific_macs = []\<rparr>,
        p_ciphertext = drop 24 (take (length bs - 20) bs),
        p_authenticated = []\<rparr>),
     uninit_mac = replicate 16 0, uninit_octet = 0, uninit_ushort = 0,
     align_fill = (\<lambda>i. 0), buffer_fill = (\<lambda>i. 0),
     VENDORID_OCI = (1, 3), FLAG_IS_SUBMESSAGE_ENCRYPTED = 1, FLAG_IS_PAYLOAD_ENCRYPTED = 2,
     SEC_BODY = 0x30, SEC_PREFIX = 0x31, SEC_POSTFIX = 0x32,
     default_EncryptOpts = \<lparr>o_submessage = False, o_payload = False\<rparr>\<rparr>"

definition empty_state :: CryptoState where
  "empty_state = \<lparr>next_handle = 1, keys = Map.empty, participant_to_entity = [],
     encrypt_options = Map.empty, sessions = Map.empty, rand_pos = 0\<rparr>"

definition wit_key_gcm :: KeyMaterial where
  "wit_key_gcm =
     \<lparr>transformation_kind = [0, 0, 0, 4], master_salt = replicate 32 0xAA,
      sender_key_id = [1, 0, 0, 0], master_sender_key = replicate 32 0xBB,
      receiver_specific_key_id = [0, 0, 0, 0], master_receiver_specific_key = []\<rparr>"

definition wit_key_gmac :: KeyMaterial where
  "wit_key_gmac =
     \<lparr>transformation_kind = [0, 0, 0, 3], master_salt = replicate 32 0xCC,
      sender_key_id = [2, 0, 0, 0], master_sender_key = replicate 32 0xDD,
      receiver_specific_key_id = [0, 0, 0, 0], master_receiver_specific_key = []\<rparr>"

definition wit_session :: Session where
  "wit_session = \<lparr>s_id = [1, 2, 3, 4], s_iv_suffix = [0, 1, 2, 3, 4, 5, 6, 7],
     s_key = replicate 32 0xEE, s_counter = 3\<rparr>"

definition wit_registry :: CryptoState where
  "wit_registry =
     \<lparr>next_handle = 10,
      keys = [1 \<mapsto> [wit_key_gcm], 2 \<mapsto> [wit_key_gmac]],
      participant_to_entity =
        [(9, \<lparr>ei_category = DATAWRITER_SUBMESSAGE, ei_handle = 1\<rparr>),
         (9, \<lparr>ei_category = DATAREADER_SUBMESSAGE, ei_handle = 2\<rparr>)],
      encrypt_options = [1 \<mapsto> \<lparr>o_submessage = True, o_payload = False\<rparr>,
                         2 \<mapsto> \<lparr>o_submessage = True, o_payload = False\<rparr>],
      sessions = [(1, 0) \<mapsto> wit_session, (2, 0) \<mapsto> wit_session],
      rand_pos = 0\<rparr>"

text \<open>
  A registry in which participant 1 has the key list received in its tokens and the writer 2
  recorded under it.
\<close>

definition cex_unregister_state :: CryptoState where
  "cex_unregister_state =
     \<lparr>next_handle = 3,
      keys = [1 \<mapsto> [wit_key_gcm], 2 \<mapsto> [wit_key_gmac]],
      participant_to_entity = [(1, \<lparr>ei_category = DATAWRITER_SUBMESSAGE, ei_handle = 2\<rparr>)],
      encrypt_options = [2 \<mapsto> \<lparr>o_submessage = True, o_payload = False\<rparr>],
      sessions = Map.empty,
      rand_pos = 0\<rparr>"

definition wit_attributes :: EndpointSecurityAttributes where
  "wit_attributes =
     \<lparr>is_submessage_protected = True, is_payload_protected = True,
      plugin_endpoint_attributes = 3\<rparr>"

text \<open>The little-endian encoding of a 32-bit value in 4 octets.\<close>

definition le32 :: "32 word \<Rightarrow> octets" where
  "le32 v = [ucast v, ucast (drop_bit 8 v), ucast (drop_bit 16 v), ucast (drop_bit 24 v)]"

definition wit_secret :: SharedSecretHandle where
  "wit_secret = \<lparr>challenge1 = replicate 32 1, challenge2 = replicate 32 2,
     sharedSecret = replicate 32 3\<rparr>"

definition wit_volatile_state :: CryptoState where
  "wit_volatile_state =
     \<lparr>next_handle = 5,
      keys = [1 \<mapsto> [make_volatile_placeholder wit_env]],
      participant_to_entity = [(9, \<lparr>ei_category = DATAWRITER_SUBMESSAGE, ei_handle = 1\<rparr>)],
      encrypt_options = [1 \<mapsto> \<lparr>o_submessage = True, o_payload = False\<rparr>],
      sessions = Map.empty,
      rand_pos = 0\<rparr>"

definition wit_env_failing :: env where
  "wit_env_failing = wit_env\<lparr>hmac_sha256 := (\<lambda>k d. SignFinalFail)\<rparr>"

definition wit_sec_prefix :: octets where
  "wit_sec_prefix =
     [0x31, 0, 0, 20, 0, 0, 0, 3, 2, 0, 0, 0, 1, 2, 3, 4, 0, 1, 2, 3, 4, 5, 6, 7]"

definition wit_payload_state :: CryptoState where
  "wit_payload_state =
     \<lparr>next_handle = 10,
      keys = [1 \<mapsto> [wit_key_gmac, wit_key_gcm]],
      participant_to_entity = [(9, \<lparr>ei_category = DATAWRITER_SUBMESSAGE, ei_handle = 1\<rparr>)],
      encrypt_options = [1 \<mapsto> \<lparr>o_submessage = True, o_payload = True\<rparr>],
      sessions = Map.empty,
      rand_pos = 0\<rparr>"

definition wit_auth_state :: CryptoState where
  "wit_auth_state =
     \<lparr>next_handle = 10,
      keys = [1 \<mapsto> [wit_key_gmac]],
      participant_to_entity = [(9, \<lparr>ei_category = DATAWRITER_SUBMESSAGE, ei_handle = 1\<rparr>)],
      encrypt_options = [1 \<mapsto> \<lparr>o_submessage = True, o_payload = False\<rparr>],
      sessions = Map.empty,
      rand_pos = 0\<rparr>"

definition wit_submessage :: octets where
  "wit_submessage = [0x15, 1, 0, 0, 9, 9, 9, 9, 9, 9]"

text \<open>A submessage of 65540 octets whose length field is zero.\<close>

definition cex_big_submessage :: octets where
  "cex_big_submessage = 0x15 # 1 # 0 # 0 # replicate 65536 0"

text \<open>
  An encoded submessage in the framing of the toy parse: SEC_PREFIX with a crypto header for
  the key \<open>wit_key_gcm\<close> and session id 05 06 07 08, a SEC_BODY of 4 octets, and a
  SEC_POSTFIX whose MAC is not the tag of the toy cipher.
\<close>

definition cex_bad_tag_submessage :: octets where
  "cex_bad_tag_submessage =
     [0x31, 0, 0, 20] @ [0, 0, 0, 4, 1, 0, 0, 0, 5, 6, 7, 8, 0, 0, 0, 0, 0, 0, 0, 1] @
     [0x30, 0, 0, 8] @ [0, 0, 0, 4] @ [1, 2, 3, 4] @
     [0x32, 0, 0, 20] @ replicate 16 0 @ [0, 0, 0, 0]"

text \<open>A registry in which handle 5 is protected at submessage level and has an empty key list.\<close>

definition wit_nokeys_state :: CryptoState where
  "wit_nokeys_state =
     \<lparr>next_handle = 10,
      keys = [5 \<mapsto> []],
      participant_to_entity = [],
      encrypt_options = [5 \<mapsto> \<lparr>o_submessage = True, o_payload = False\<rparr>],
      sessions = Map.empty,
      rand_pos = 0\<rparr>"

section \<open>Session engine: advancing a session\<close>

lemma inc32_ff: "inc32 (0xff # 0 # 0 # 0 # rest) = (False, 0xff # 1 # 0 # 0 # rest)"
  by (simp add: inc32_def)

text \<open>
  C1. The claim: before a message of \<open>b\<close> blocks a session with a key rotates when
  \<open>counter + b > 1024\<close>, its id incremented as a 32-bit little-endian integer, and otherwise
  its IV suffix is incremented as a 64-bit little-endian integer. The code at a session whose
  id is \<open>ff 00 00 00\<close> (255) and whose counter is 1024, for a message of one block: the new
  id is \<open>ff 01 00 00\<close> (511), not 256. At a session whose IV suffix is \<open>ff 00 00 00 00 00 00 00\<close>
  and whose counter is 0: the new suffix is \<open>ff 01 00 00 00 00 00 00\<close>. \<open>inc32\<close> adds one
  to the first octet that is not \<open>ff\<close> and leaves the \<open>ff\<close> octets before it as they are.
\<close>

theorem encauth_setup_rotation_not_increment:
  "s_id (fst (encauth_setup e master
        \<lparr>s_id = [0xff, 0, 0, 0], s_iv_suffix = replicate 8 0, s_key = [1], s_counter = 1024\<rparr>
        (replicate 16 0) pos)) = [0xff, 1, 0, 0] \<and>
   le_value [0xff, 1, 0, 0] = 511 \<and> le_value [0xff, 0, 0, 0] + 1 = 256 \<and>
   s_iv_suffix (fst (encauth_setup e master
        \<lparr>s_id = [0, 0, 0, 0], s_iv_suffix = [0xff, 0, 0, 0, 0, 0, 0, 0], s_key = [1], s_counter = 0\<rparr>
        (replicate 16 0) pos)) = [0xff, 1, 0, 0, 0, 0, 0, 0]"
  by (simp add: encauth_setup_def blocks_of_def BLOCK_LEN_BYTES_def MAX_BLOCKS_PER_SESSION_def
      next_id_def inc_iv_def inc32_ff RAND_bytes_def derive_key_def Let_def
      split: sign_result.split)

section \<open>Token codec: the round trip\<close>

lemma be32_roundtrip: "be32_value (be32 v) = v"
proof (rule bit_word_eqI)
  fix n :: nat
  assume "n < LENGTH(32)"
  consider "n < 8" | "8 \<le> n" "n < 16" | "16 \<le> n" "n < 24" | "24 \<le> n" "n < 32"
    using \<open>n < LENGTH(32)\<close> by fastforce
  then show "bit (be32_value (be32 v)) n = bit v n"
    by cases (auto simp: be32_def be32_value_def bit_simps)
qed

lemma length_be32: "length (be32 v) = 4"
  by (simp add: be32_def)

lemma length_octet_array: "length (octet_array n xs) = n"
  by (simp add: octet_array_def)

lemma octet_array_id: "length xs = n \<Longrightarrow> octet_array n xs = xs"
  by (simp add: octet_array_def)

lemma read_octets_append:
  "length xs = n \<Longrightarrow> read_octets n (pos, xs @ rest) = Some (xs, pos + n, rest)"
  by (simp add: read_octets_def)

lemma read_ulong_cdr:
  "read_ulong (pos, cdr_ulong pos v @ rest) = Some (v, pos + length (cdr_ulong pos v), rest)"
  by (simp add: read_ulong_def cdr_ulong_def read_octets_append length_be32 be32_roundtrip
      add.assoc)

lemma read_octet_seq_cdr:
  "length xs < 2 ^ 32 \<Longrightarrow>
   read_octet_seq (pos, cdr_octet_seq pos xs @ rest) =
     Some (xs, pos + length (cdr_octet_seq pos xs), rest)"
  by (simp add: read_octet_seq_def cdr_octet_seq_def read_ulong_cdr read_octets_append
      unat_of_nat add.assoc)

lemma deserialize_key_to_cdr:
  assumes "wf_KeyMaterial k"
  shows "deserialize_KeyMaterial (key_to_cdr k @ rest) = Some k"
proof -
  obtain kind salt skid msk rkid mrk where k:
    "k = \<lparr>transformation_kind = kind, master_salt = salt, sender_key_id = skid,
          master_sender_key = msk, receiver_specific_key_id = rkid,
          master_receiver_specific_key = mrk\<rparr>"
    by (cases k) simp
  from assms k have len: "length kind = 4" "length skid = 4" "length rkid = 4"
    "length salt < 2 ^ 32" "length msk < 2 ^ 32" "length mrk < 2 ^ 32"
    by (simp_all add: wf_KeyMaterial_def)
  define p1 where "p1 = 4 + length (cdr_octet_seq 4 salt)"
  define p2 where "p2 = p1 + 4 + length (cdr_octet_seq (p1 + 4) msk)"
  have cdr: "key_to_cdr k @ rest =
      kind @ cdr_octet_seq 4 salt @ skid @ cdr_octet_seq (p1 + 4) msk @ rkid @
      cdr_octet_seq (p2 + 4) mrk @ rest"
    by (simp add: key_to_cdr_def k Let_def octet_array_id len p1_def p2_def add.commute add.left_commute)
  show ?thesis
    unfolding cdr deserialize_KeyMaterial_def
    by (simp add: read_octets_append [OF len(1)] read_octet_seq_cdr [OF len(4)]
        read_octets_append [OF len(2)] read_octet_seq_cdr [OF len(5)]
        read_octets_append [OF len(3)] read_octet_seq_cdr [OF len(6)]
        p1_def [symmetric] p2_def [symmetric] k)
qed

lemma total_find_size_octets: "sp_total (find_size_octets n sp) = sp_total sp + n"
  by (cases sp) (simp add: find_size_octets_def sp_total_def)

lemma total_find_size_octet_seq:
  "sp_total (find_size_octet_seq xs sp) = sp_total sp + length (cdr_octet_seq (sp_total sp) xs)"
  by (cases sp)
    (simp add: find_size_octet_seq_def find_size_octets_def find_size_ulong_def sp_total_def
      cdr_octet_seq_def cdr_ulong_def length_be32)

lemma gen_find_size_KeyMaterial_total:
  "sp_total (gen_find_size_KeyMaterial k (0, 0)) = length (key_to_cdr k)"
  by (simp add: gen_find_size_KeyMaterial_def total_find_size_octets total_find_size_octet_seq
      key_to_cdr_def Let_def length_octet_array sp_total_def [of "(0, 0)"] add.assoc)

lemma keys_to_tokens_step:
  "keys_to_tokens (k # ks) =
     \<lparr>class_id = Crypto_Token_Class_Id, properties = [],
      binary_properties =
        [\<lparr>bp_name = Token_KeyMat_Name, bp_value = key_to_cdr k, bp_propagate = True\<rparr>]\<rparr>
     # keys_to_tokens ks"
proof -
  obtain sz padding where sp: "gen_find_size_KeyMaterial k (0, 0) = (sz, padding)"
    by (cases "gen_find_size_KeyMaterial k (0, 0)")
  with gen_find_size_KeyMaterial_total [of k] have "sz + padding = length (key_to_cdr k)"
    by (simp add: sp_total_def)
  then show ?thesis
    by (simp add: sp serialize_KeyMaterial_def)
qed

text \<open>
  C2. For every list of key materials, \<open>tokens_to_keys (keys_to_tokens ks)\<close> is \<open>ks\<close>: as many
  keys, in the same order, every field octet for octet; in particular for a list of one key.
  The key materials are those the types allow: arrays of 4 octets, sequences shorter than
  \<open>2 ^ 32\<close>.
\<close>

theorem tokens_to_keys_keys_to_tokens:
  assumes "\<forall>k \<in> set ks. wf_KeyMaterial k"
  shows "tokens_to_keys (keys_to_tokens ks) = ks"
  using assms
proof (induction ks)
  case Nil
  show ?case by simp
next
  case (Cons k ks)
  then have "wf_KeyMaterial k" by simp
  from deserialize_key_to_cdr [OF this, of "[]"]
  have "deserialize_KeyMaterial (key_to_cdr k) = Some k" by simp
  with Cons show ?case
    by (simp add: keys_to_tokens_step del: keys_to_tokens.simps)
qed

theorem tokens_to_keys_keys_to_tokens_witness:
  "wf_KeyMaterial wit_key_gcm \<and> wf_KeyMaterial wit_key_gmac \<and>
   tokens_to_keys (keys_to_tokens [wit_key_gcm, wit_key_gmac]) = [wit_key_gcm, wit_key_gmac]"
proof -
  have wf: "wf_KeyMaterial wit_key_gcm" "wf_KeyMaterial wit_key_gmac"
    by (simp_all add: wf_KeyMaterial_def wit_key_gcm_def wit_key_gmac_def)
  then have "\<forall>k \<in> set [wit_key_gcm, wit_key_gmac]. wf_KeyMaterial k" by simp
  from tokens_to_keys_keys_to_tokens [OF this] wf show ?thesis by simp
qed

section \<open>Sender key lookup\<close>

text \<open>The comparison of the code is the match of the specification.\<close>

lemma matches_same_transform_identifier: "matches k ch = same_transform_identifier k ch"
  by (simp add: matches_def memcmp_eq_def same_transform_identifier_def)

lemma key_matches_iff:
  "key_matches keyseq ch = list_ex (\<lambda>k. same_transform_identifier k ch) keyseq"
  by (induction keyseq) (auto simp: matches_same_transform_identifier)

lemma preprocess_entities_none:
  "\<forall>ei \<in> set ents. \<not> has_matching_key st ch ei \<Longrightarrow>
   preprocess_entities st ch outs ents =
     Inl (set_security_error_ids (-2) 1 ''Crypto Key not registered''
            (tid_transformation_kind ch) (tid_transformation_key_id ch))"
  by (induction ents) (auto simp: has_matching_key_def key_matches_iff split: option.splits)

lemma preprocess_entities_first:
  "\<forall>x \<in> set pre. \<not> has_matching_key st ch x \<Longrightarrow> has_matching_key st ch ei \<Longrightarrow>
   preprocess_entities st ch (dw, dr, cat) (pre @ ei # post) =
     Inr (if ei_category ei = DATAWRITER_SUBMESSAGE then ei_handle ei else dw,
          if ei_category ei = DATAREADER_SUBMESSAGE then ei_handle ei else dr,
          ei_category ei)"
proof (induction pre)
  case Nil
  then show ?case
    by (cases "ei_category ei")
      (auto simp: has_matching_key_def key_matches_iff split: option.splits)
next
  case (Cons x pre)
  then show ?case
    by (auto simp: has_matching_key_def key_matches_iff split: option.splits)
qed

text \<open>
  C3. \<open>preprocess_secure_submsg\<close> with receiving and sending participant handles that are
  not nil goes through the entities registered under the sending participant, in order, and
  succeeds at the first one whose key list has a key whose \<open>transformation_kind\<close> and
  \<open>sender_key_id\<close> are those of the parsed header: the category becomes the kind of that
  entity and its handle is assigned to the writer or the reader handle accordingly. When no
  registered key matches, it fails with code -2, minor code 1 and the message
  "Crypto Key not registered".
\<close>

theorem preprocess_secure_submsg_first_match:
  assumes "receiving \<noteq> HANDLE_NIL" and "sending \<noteq> HANDLE_NIL"
  shows
    "(\<forall>pre ei post.
        equal_range (participant_to_entity st) sending = pre @ ei # post \<and>
        (\<forall>x \<in> set pre. \<not> has_matching_key st (p_header (parse_submessage e enc)) x) \<and>
        has_matching_key st (p_header (parse_submessage e enc)) ei \<longrightarrow>
        preprocess_secure_submsg e st (dw, dr, cat) enc receiving sending =
          Inr (if ei_category ei = DATAWRITER_SUBMESSAGE then ei_handle ei else dw,
               if ei_category ei = DATAREADER_SUBMESSAGE then ei_handle ei else dr,
               ei_category ei)) \<and>
     ((\<forall>ei \<in> set (equal_range (participant_to_entity st) sending).
         \<not> has_matching_key st (p_header (parse_submessage e enc)) ei) \<longrightarrow>
        (\<exists>ex. preprocess_secure_submsg e st (dw, dr, cat) enc receiving sending = Inl ex \<and>
           code ex = -2 \<and> minor_code ex = 1 \<and> message ex = ''Crypto Key not registered''))"
  using assms
  by (auto simp: preprocess_secure_submsg_def Let_def preprocess_entities_first
      preprocess_entities_none set_security_error_ids_def)


theorem preprocess_secure_submsg_first_match_witness:
  "(7 :: handle) \<noteq> HANDLE_NIL \<and> (9 :: handle) \<noteq> HANDLE_NIL \<and> (8 :: handle) \<noteq> HANDLE_NIL \<and>
   equal_range (participant_to_entity wit_registry) 9 =
     [\<lparr>ei_category = DATAWRITER_SUBMESSAGE, ei_handle = 1\<rparr>] @
     \<lparr>ei_category = DATAREADER_SUBMESSAGE, ei_handle = 2\<rparr> # [] \<and>
   \<not> has_matching_key wit_registry (p_header (parse_submessage wit_env wit_sec_prefix))
       \<lparr>ei_category = DATAWRITER_SUBMESSAGE, ei_handle = 1\<rparr> \<and>
   has_matching_key wit_registry (p_header (parse_submessage wit_env wit_sec_prefix))
     \<lparr>ei_category = DATAREADER_SUBMESSAGE, ei_handle = 2\<rparr> \<and>
   preprocess_secure_submsg wit_env wit_registry (0, 0, INFO_SUBMESSAGE) wit_sec_prefix 7 9 =
     Inr (0, 2, DATAREADER_SUBMESSAGE) \<and>
   equal_range (participant_to_entity wit_registry) 8 = [] \<and>
   (\<exists>ex. preprocess_secure_submsg wit_env wit_registry (0, 0, INFO_SUBMESSAGE) wit_sec_prefix 7 8
           = Inl ex \<and>
         code ex = -2 \<and> minor_code ex = 1 \<and> message ex = ''Crypto Key not registered'')"
proof -
  have h: "(7 :: handle) \<noteq> HANDLE_NIL" "(9 :: handle) \<noteq> HANDLE_NIL" "(8 :: handle) \<noteq> HANDLE_NIL"
    by (simp_all add: HANDLE_NIL_def)
  have r: "equal_range (participant_to_entity wit_registry) 9 =
     [\<lparr>ei_category = DATAWRITER_SUBMESSAGE, ei_handle = 1\<rparr>] @
     \<lparr>ei_category = DATAREADER_SUBMESSAGE, ei_handle = 2\<rparr> # []"
    "equal_range (participant_to_entity wit_registry) 8 = []"
    by (simp_all add: equal_range_def wit_registry_def)
  have ch: "p_header (parse_submessage wit_env wit_sec_prefix) =
      \<lparr>tid_transformation_kind = [0, 0, 0, 3], tid_transformation_key_id = [2, 0, 0, 0],
       session_id = [1, 2, 3, 4], initialization_vector_suffix = [0, 1, 2, 3, 4, 5, 6, 7]\<rparr>"
    by (simp add: wit_env_def wit_sec_prefix_def)
  have m: "\<not> has_matching_key wit_registry (p_header (parse_submessage wit_env wit_sec_prefix))
       \<lparr>ei_category = DATAWRITER_SUBMESSAGE, ei_handle = 1\<rparr>"
    "has_matching_key wit_registry (p_header (parse_submessage wit_env wit_sec_prefix))
       \<lparr>ei_category = DATAREADER_SUBMESSAGE, ei_handle = 2\<rparr>"
    unfolding ch
    by (simp_all add: has_matching_key_def wit_registry_def same_transform_identifier_def
        wit_key_gcm_def wit_key_gmac_def)
  have ok: "preprocess_secure_submsg wit_env wit_registry (0, 0, INFO_SUBMESSAGE) wit_sec_prefix 7 9 =
     Inr (0, 2, DATAREADER_SUBMESSAGE)"
    using preprocess_secure_submsg_first_match [OF h(1) h(2), of wit_registry wit_env
      wit_sec_prefix 0 0 INFO_SUBMESSAGE, THEN conjunct1, rule_format,
      of "[\<lparr>ei_category = DATAWRITER_SUBMESSAGE, ei_handle = 1\<rparr>]"
         "\<lparr>ei_category = DATAREADER_SUBMESSAGE, ei_handle = 2\<rparr>" "[]"] r(1) m
    by simp
  have bad: "\<exists>ex. preprocess_secure_submsg wit_env wit_registry (0, 0, INFO_SUBMESSAGE) wit_sec_prefix 7 8
           = Inl ex \<and>
         code ex = -2 \<and> minor_code ex = 1 \<and> message ex = ''Crypto Key not registered''"
    using preprocess_secure_submsg_first_match [OF h(1) h(3), of wit_registry wit_env
      wit_sec_prefix 0 0 INFO_SUBMESSAGE, THEN conjunct2] r(2)
    by simp
  from h r m ok bad show ?thesis by (intro conjI)
qed

section \<open>Layout of the encoded buffers\<close>

lemma written_buffer_exact: "length w = cap \<Longrightarrow> written_buffer e cap w = w"
  by (simp add: written_buffer_def)

lemma length_cdr_CryptoHeader: "length (cdr_CryptoHeader h) = 20"
  by (simp add: cdr_CryptoHeader_def length_octet_array)

lemma gen_find_size_CryptoHeader_eq: "gen_find_size_CryptoHeader h (sz, padding) = (sz + 20, padding)"
  by (simp add: gen_find_size_CryptoHeader_def find_size_octets_def)

lemma length_concat_macs:
  "length (concat (map (\<lambda>(key_id, mac). octet_array 4 key_id @ octet_array 16 mac) ms)) =
     20 * length ms"
  by (induction ms) (auto simp: length_octet_array)

lemma length_cdr_ulong: "length (cdr_ulong pos v) = align_pad 4 pos + 4"
  by (simp add: cdr_ulong_def length_be32)

lemma total_gen_find_size_CryptoFooter:
  "sp_total (gen_find_size_CryptoFooter f sp) = sp_total sp + length (cdr_CryptoFooter (sp_total sp) f)"
  by (cases sp)
    (simp add: gen_find_size_CryptoFooter_def find_size_octets_def find_size_ulong_def
      sp_total_def cdr_CryptoFooter_def length_octet_array length_cdr_ulong length_concat_macs
      ac_simps)

lemma align_pad_4_20 [simp]: "align_pad 4 20 = 0" "align_pad 4 24 = 0" "align_pad 4 28 = 0"
  by (simp_all add: align_pad_def)

lemma encauth_setup_header:
  "encauth_setup e master sess plain pos = (sess', header, pos') \<Longrightarrow>
   tid_transformation_kind header = transformation_kind master \<and>
   tid_transformation_key_id header = sender_key_id master \<and>
   session_id header = s_id sess' \<and> initialization_vector_suffix header = s_iv_suffix sess'"
  by (auto simp: encauth_setup_def Let_def split: prod.splits)

lemma encrypt_header:
  "encrypt e master sess plain footer pos = (Inr (header, footer', out), sess', pos') \<Longrightarrow>
   tid_transformation_kind header = transformation_kind master \<and>
   tid_transformation_key_id header = sender_key_id master"
  by (auto simp: encrypt_def Let_def split: prod.splits if_splits sum.splits
      dest: encauth_setup_header)

lemma authtag_header:
  "authtag e master sess plain footer pos = (Inr (header, footer'), sess', pos') \<Longrightarrow>
   tid_transformation_kind header = transformation_kind master \<and>
   tid_transformation_key_id header = sender_key_id master"
  by (auto simp: authtag_def Let_def split: prod.splits if_splits sum.splits
      dest: encauth_setup_header)

section \<open>Encoding a serialized payload\<close>

lemma serialize_payload_eq:
  "serialize_payload e header footer encrypted pOut =
     cdr_CryptoHeader header @ (if encrypted then be32 (of_nat (length pOut)) else []) @ pOut @
     cdr_CryptoFooter ((if encrypted then 24 else 20) + length pOut) footer"
proof -
  let ?sz2 = "(if encrypted then 24 else 20) + length pOut"
  obtain sz3 padding3 where f: "gen_find_size_CryptoFooter footer (?sz2, 0) = (sz3, padding3)"
    by (cases "gen_find_size_CryptoFooter footer (?sz2, 0)")
  from total_gen_find_size_CryptoFooter [of footer "(?sz2, 0)"] f
  have tot: "sz3 + padding3 = ?sz2 + length (cdr_CryptoFooter ?sz2 footer)"
    by (simp add: sp_total_def)
  show ?thesis
  proof (cases encrypted)
    case True
    with f tot show ?thesis
      by (simp add: serialize_payload_def gen_find_size_CryptoHeader_eq
          CRYPTO_CONTENT_ADDED_LENGTH_def length_cdr_CryptoHeader cdr_ulong_def
          written_buffer_exact length_be32)
  next
    case False
    with f tot show ?thesis
      by (simp add: serialize_payload_def gen_find_size_CryptoHeader_eq
          length_cdr_CryptoHeader written_buffer_exact)
  qed
qed

lemma take_8_serialize_payload:
  "take 8 (serialize_payload e header footer encrypted pOut) =
     octet_array 4 (tid_transformation_kind header) @ octet_array 4 (tid_transformation_key_id header)"
  by (simp add: serialize_payload_eq cdr_CryptoHeader_def length_octet_array)

lemma transform_payload_header:
  assumes "fst (transform_payload e st sKey key plain) = Inr enc"
  shows "take 8 enc =
     octet_array 4 (transformation_kind key) @ octet_array 4 (sender_key_id key)"
proof (cases "encrypts key")
  case True
  obtain sess sm where m: "map_index Session_default (sessions st) sKey = (sess, sm)"
    by (cases "map_index Session_default (sessions st) sKey")
  obtain r sess' pos' where r: "encrypt e key sess plain (CryptoFooter_uninit e) (rand_pos st) = (r, sess', pos')"
    by (cases "encrypt e key sess plain (CryptoFooter_uninit e) (rand_pos st)")
  from assms True m r obtain header footer out where
    ok: "r = Inr (header, footer, out)" "enc = serialize_payload e header footer True out"
    by (auto simp: transform_payload_def Let_def split: sum.splits prod.splits)
  from encrypt_header [OF r [unfolded ok(1)]] ok(2) show ?thesis
    by (simp add: take_8_serialize_payload)
next
  case False
  obtain sess sm where m: "map_index Session_default (sessions st) sKey = (sess, sm)"
    by (cases "map_index Session_default (sessions st) sKey")
  obtain r sess' pos' where r: "authtag e key sess plain (CryptoFooter_uninit e) (rand_pos st) = (r, sess', pos')"
    by (cases "authtag e key sess plain (CryptoFooter_uninit e) (rand_pos st)")
  from assms False m r obtain header footer where
    ok: "r = Inr (header, footer)" "enc = serialize_payload e header footer False plain"
    by (auto simp: transform_payload_def Let_def split: sum.splits if_splits prod.splits)
  from authtag_header [OF r [unfolded ok(1)]] ok(2) show ?thesis
    by (simp add: take_8_serialize_payload)
qed

text \<open>
  C4. \<open>encode_serialized_payload\<close> with a writer handle that is not nil. When the handle
  has no entry in the key registry, or its key list is empty, or its payload option (the
  one \<open>encrypt_options_[h]\<close> yields) is off, the call succeeds and the encoded buffer is the
  plain buffer. Otherwise the transform runs with the key at index 1 when the key list has at
  least 2 keys and with the key at index 0 when it has one, on the session of that index;
  and when it succeeds, the encoded buffer starts with the transformation kind and the key
  id of that key.
\<close>

theorem encode_serialized_payload_key_choice:
  assumes "h \<noteq> HANDLE_NIL"
  shows
    "(keys st h = None \<or> keys st h = Some [] \<or>
      \<not> o_payload (fst (map_index (default_EncryptOpts e) (encrypt_options st) h)) \<longrightarrow>
        fst (encode_serialized_payload e st plain h) = Inr plain) \<and>
     (\<forall>ks. keys st h = Some ks \<and> ks \<noteq> [] \<and>
        o_payload (fst (map_index (default_EncryptOpts e) (encrypt_options st) h)) \<longrightarrow>
        encode_serialized_payload e st plain h =
          transform_payload e
            (st\<lparr>encrypt_options := snd (map_index (default_EncryptOpts e) (encrypt_options st) h)\<rparr>)
            (h, if 2 \<le> length ks then 1 else 0) (ks ! (if 2 \<le> length ks then 1 else 0)) plain \<and>
        (\<forall>enc. fst (encode_serialized_payload e st plain h) = Inr enc \<longrightarrow>
           take 8 enc =
             octet_array 4 (transformation_kind (ks ! (if 2 \<le> length ks then 1 else 0))) @
             octet_array 4 (sender_key_id (ks ! (if 2 \<le> length ks then 1 else 0)))))"
proof -
  obtain opts eo where m: "map_index (default_EncryptOpts e) (encrypt_options st) h = (opts, eo)"
    by (cases "map_index (default_EncryptOpts e) (encrypt_options st) h")
  have pass: "fst (encode_serialized_payload e st plain h) = Inr plain"
    if "keys st h = None \<or> keys st h = Some [] \<or> \<not> o_payload opts"
    using that assms m
    by (auto simp: encode_serialized_payload_def Let_def split: option.splits)
  have sel: "encode_serialized_payload e st plain h =
      transform_payload e (st\<lparr>encrypt_options := eo\<rparr>)
        (h, if 2 \<le> length ks then 1 else 0) (ks ! (if 2 \<le> length ks then 1 else 0)) plain"
    if "keys st h = Some ks" "ks \<noteq> []" "o_payload opts" for ks
    using that assms m
    by (simp add: encode_serialized_payload_def Let_def)
  have hdr: "take 8 enc =
             octet_array 4 (transformation_kind (ks ! (if 2 \<le> length ks then 1 else 0))) @
             octet_array 4 (sender_key_id (ks ! (if 2 \<le> length ks then 1 else 0)))"
    if "keys st h = Some ks" "ks \<noteq> []" "o_payload opts"
      "fst (encode_serialized_payload e st plain h) = Inr enc" for ks enc
    using transform_payload_header [of e "st\<lparr>encrypt_options := eo\<rparr>"
        "(h, if 2 \<le> length ks then 1 else 0)" "ks ! (if 2 \<le> length ks then 1 else 0)" plain enc]
      sel [OF that(1-3)] that(4)
    by simp
  from pass sel hdr show ?thesis
    unfolding m fst_conv snd_conv by blast
qed


lemma isl_encrypt_wit_env: "\<not> isl (fst (encrypt wit_env k sess plain f pos))"
  by (simp add: encrypt_def wit_env_def split_def Let_def)

lemma isl_transform_payload_wit_env:
  "\<not> isl (fst (transform_payload wit_env st sKey wit_key_gcm plain))"
proof -
  have e: "encrypts wit_key_gcm"
    by (simp add: encrypts_def wit_key_gcm_def TransformKindIndex_def
        CRYPTO_TRANSFORMATION_KIND_AES256_GCM_def)
  obtain sess sm where m: "map_index Session_default (sessions st) sKey = (sess, sm)"
    by (cases "map_index Session_default (sessions st) sKey")
  obtain r sess' pos' where r: "encrypt wit_env wit_key_gcm sess plain (CryptoFooter_uninit wit_env) (rand_pos st) = (r, sess', pos')"
    by (cases "encrypt wit_env wit_key_gcm sess plain (CryptoFooter_uninit wit_env) (rand_pos st)")
  from isl_encrypt_wit_env [of wit_key_gcm sess plain "CryptoFooter_uninit wit_env" "rand_pos st"] r
  have "\<not> isl r" by simp
  with e m r show ?thesis
    by (cases r) (auto simp: transform_payload_def Let_def)
qed

theorem encode_serialized_payload_key_choice_witness:
  "(1 :: handle) \<noteq> HANDLE_NIL \<and>
   keys empty_state 1 = None \<and>
   fst (encode_serialized_payload wit_env empty_state [1, 2, 3] 1) = Inr [1, 2, 3] \<and>
   keys wit_payload_state 1 = Some [wit_key_gmac, wit_key_gcm] \<and>
   o_payload (fst (map_index (default_EncryptOpts wit_env) (encrypt_options wit_payload_state) 1)) \<and>
   encode_serialized_payload wit_env wit_payload_state [1, 2, 3] 1 =
     transform_payload wit_env wit_payload_state (1, 1) wit_key_gcm [1, 2, 3] \<and>
   \<not> isl (fst (encode_serialized_payload wit_env wit_payload_state [1, 2, 3] 1)) \<and>
   take 8 (projr (fst (encode_serialized_payload wit_env wit_payload_state [1, 2, 3] 1))) =
     [0, 0, 0, 4, 1, 0, 0, 0]"
proof -
  have h: "(1 :: handle) \<noteq> HANDLE_NIL" by (simp add: HANDLE_NIL_def)
  have k0: "keys empty_state 1 = None" by (simp add: empty_state_def)
  have k: "keys wit_payload_state 1 = Some [wit_key_gmac, wit_key_gcm]"
    by (simp add: wit_payload_state_def)
  have m: "map_index (default_EncryptOpts wit_env) (encrypt_options wit_payload_state) 1 =
      (\<lparr>o_submessage = True, o_payload = True\<rparr>, encrypt_options wit_payload_state)"
    by (simp add: map_index_def wit_payload_state_def)
  note t0 = encode_serialized_payload_key_choice [OF h, of empty_state wit_env "[1, 2, 3]",
      THEN conjunct1, rule_format]
  note t1 = encode_serialized_payload_key_choice [OF h, of wit_payload_state wit_env "[1, 2, 3]",
      THEN conjunct2, rule_format, of "[wit_key_gmac, wit_key_gcm]"]
  have pass: "fst (encode_serialized_payload wit_env empty_state [1, 2, 3] 1) = Inr [1, 2, 3]"
    by (rule t0) (simp add: k0)
  have pre: "keys wit_payload_state 1 = Some [wit_key_gmac, wit_key_gcm] \<and>
      [wit_key_gmac, wit_key_gcm] \<noteq> [] \<and>
      o_payload (fst (map_index (default_EncryptOpts wit_env) (encrypt_options wit_payload_state) 1))"
    by (simp add: k m)
  from t1 [OF pre, THEN conjunct1]
  have sel: "encode_serialized_payload wit_env wit_payload_state [1, 2, 3] 1 =
     transform_payload wit_env wit_payload_state (1, 1) wit_key_gcm [1, 2, 3]"
    by (simp add: m)
  have ok: "\<not> isl (fst (encode_serialized_payload wit_env wit_payload_state [1, 2, 3] 1))"
    unfolding sel by (rule isl_transform_payload_wit_env)
  then have inr: "fst (encode_serialized_payload wit_env wit_payload_state [1, 2, 3] 1) =
      Inr (projr (fst (encode_serialized_payload wit_env wit_payload_state [1, 2, 3] 1)))"
    by (cases "fst (encode_serialized_payload wit_env wit_payload_state [1, 2, 3] 1)") simp_all
  from t1 [OF pre, THEN conjunct2, rule_format, OF inr]
  have t8: "take 8 (projr (fst (encode_serialized_payload wit_env wit_payload_state [1, 2, 3] 1))) =
     [0, 0, 0, 4, 1, 0, 0, 0]"
    by (simp add: octet_array_def wit_key_gcm_def)
  from h k0 pass k pre sel ok t8 show ?thesis by (intro conjI) simp_all
qed

section \<open>Registering a local writer\<close>

lemma upt_0_4: "[0 ..< 4] = [0, 1, 2, 3 :: nat]"
  by (simp add: upt_rec)

lemma sender_key_id_make_key: "sender_key_id (fst (make_key e key_id enc pos)) = le32 key_id"
  by (simp add: make_key_def RAND_bytes_def le32_def upt_0_4)

lemma le32_roundtrip:
  "push_bit 24 (ucast (le32 v ! 3)) OR push_bit 16 (ucast (le32 v ! 2)) OR
   push_bit 8 (ucast (le32 v ! 1)) OR ucast (le32 v ! 0) = v"
proof (rule bit_word_eqI)
  fix n :: nat
  assume "n < LENGTH(32)"
  then consider "n < 8" | "8 \<le> n" "n < 16" | "16 \<le> n" "n < 24" | "24 \<le> n" "n < 32"
    by fastforce
  then show "bit (push_bit 24 (ucast (le32 v ! 3)) OR push_bit 16 (ucast (le32 v ! 2)) OR
      push_bit 8 (ucast (le32 v ! 1)) OR (ucast (le32 v ! 0) :: 32 word)) n = bit v n"
    by cases (auto simp: le32_def bit_simps)
qed

lemma le32_inj: "le32 a = le32 b \<Longrightarrow> a = b"
  using le32_roundtrip [of a] le32_roundtrip [of b] by simp

text \<open>
  C5. \<open>register_local_datawriter\<close> with a participant handle that is not nil, properties
  that do not name a volatile endpoint, and both \<open>is_submessage_protected\<close> and
  \<open>is_payload_protected\<close> set: exactly two keys are stored under the returned handle \<open>H\<close>,
  the first with \<open>sender_key_id\<close> the little-endian encoding of \<open>H\<close>, the second with that of
  the handle generated next, and the two ids differ.
\<close>

theorem register_local_datawriter_two_keys:
  assumes "participant_crypto \<noteq> HANDLE_NIL" and "\<not> is_builtin_volatile props"
    and "is_submessage_protected a" and "is_payload_protected a"
  shows "\<exists>k0 k1.
     fst (register_local_datawriter e st participant_crypto props a) =
       Inr (fst (generate_handle st)) \<and>
     keys (snd (register_local_datawriter e st participant_crypto props a))
       (fst (generate_handle st)) = Some [k0, k1] \<and>
     sender_key_id k0 = le32 (fst (generate_handle st)) \<and>
     sender_key_id k1 = le32 (fst (generate_handle (snd (generate_handle st)))) \<and>
     sender_key_id k0 \<noteq> sender_key_id k1"
proof -
  have ne: "le32 (next_handle st) \<noteq> le32 (next_handle st + 1)"
    using le32_inj [of "next_handle st" "next_handle st + 1"] by auto
  obtain k0 p0 where m0: "make_key e (next_handle st)
      (plugin_endpoint_attributes a AND FLAG_IS_SUBMESSAGE_ENCRYPTED e \<noteq> 0) (rand_pos st) = (k0, p0)"
    by (cases "make_key e (next_handle st)
      (plugin_endpoint_attributes a AND FLAG_IS_SUBMESSAGE_ENCRYPTED e \<noteq> 0) (rand_pos st)")
  obtain k1 p1 where m1: "make_key e (next_handle st + 1)
      (plugin_endpoint_attributes a AND FLAG_IS_PAYLOAD_ENCRYPTED e \<noteq> 0) p0 = (k1, p1)"
    by (cases "make_key e (next_handle st + 1)
      (plugin_endpoint_attributes a AND FLAG_IS_PAYLOAD_ENCRYPTED e \<noteq> 0) p0")
  have s0: "sender_key_id k0 = le32 (next_handle st)"
    by (metis m0 sender_key_id_make_key fst_conv)
  have s1: "sender_key_id k1 = le32 (next_handle st + 1)"
    by (metis m1 sender_key_id_make_key fst_conv)
  show ?thesis
    using assms m0 m1 s0 s1 ne
    by (simp add: register_local_datawriter_def generate_handle_def increment_handle_def
        Let_def)
qed


theorem register_local_datawriter_two_keys_witness:
  "(7 :: handle) \<noteq> HANDLE_NIL \<and> \<not> is_builtin_volatile [] \<and>
   is_submessage_protected wit_attributes \<and> is_payload_protected wit_attributes \<and>
   (\<exists>k0 k1.
      fst (register_local_datawriter wit_env empty_state 7 [] wit_attributes) = Inr 1 \<and>
      keys (snd (register_local_datawriter wit_env empty_state 7 [] wit_attributes)) 1 =
        Some [k0, k1] \<and>
      sender_key_id k0 = [1, 0, 0, 0] \<and> sender_key_id k1 = [2, 0, 0, 0])"
proof -
  have h: "(7 :: handle) \<noteq> HANDLE_NIL" "\<not> is_builtin_volatile []"
    "is_submessage_protected wit_attributes" "is_payload_protected wit_attributes"
    by (simp_all add: HANDLE_NIL_def wit_attributes_def)
  have g: "fst (generate_handle empty_state) = 1"
    "fst (generate_handle (snd (generate_handle empty_state))) = 2"
    by (simp_all add: generate_handle_def increment_handle_def empty_state_def)
  have l: "le32 1 = [1, 0, 0, 0]" "le32 2 = [2, 0, 0, 0]"
    by (simp_all add: le32_def)
  from register_local_datawriter_two_keys [OF h, of wit_env empty_state]
  obtain k0 k1 where
    "fst (register_local_datawriter wit_env empty_state 7 [] wit_attributes) = Inr 1"
    "keys (snd (register_local_datawriter wit_env empty_state 7 [] wit_attributes)) 1 =
       Some [k0, k1]"
    "sender_key_id k0 = [1, 0, 0, 0]" "sender_key_id k1 = [2, 0, 0, 0]"
    unfolding g l by blast
  with h show ?thesis by blast
qed

section \<open>Registering a matched remote reader\<close>

lemma take_16_cookies:
  "take 16 (octets_of_string KxSaltCookie) = octets_of_string ''keyexchange salt''"
  "take 16 (octets_of_string KxKeyCookie) = octets_of_string ''key exchange key''"
  by (simp_all add: octets_of_string_def KxSaltCookie_def KxKeyCookie_def)

text \<open>
  C6. \<open>register_matched_remote_datareader\<close> with handles that are not nil and a shared
  secret, when the key list of the local writer is exactly one volatile placeholder: the
  single key stored under the new reader handle has as \<open>master_salt\<close> the HMAC-SHA256 of the
  shared secret under the SHA-256 hash of challenge1, "keyexchange salt" (16 octets) and
  challenge2, as \<open>master_sender_key\<close> the HMAC-SHA256 of the shared secret under the hash of
  challenge2, "key exchange key" and challenge1, and the kind AES256-GCM. When either derived
  field is empty the registration fails, the caller gets the nil handle, and the key table
  is as it was: no key is stored under the new handle.
\<close>

theorem register_matched_remote_datareader_volatile:
  assumes "local_dw \<noteq> HANDLE_NIL" and "remote_p \<noteq> HANDLE_NIL"
    and "keys st local_dw = Some [k]" and "is_volatile_placeholder e k"
  shows
    "(ssl_hash e (challenge1 ss @ octets_of_string ''keyexchange salt'' @ challenge2 ss) = Some d1 \<and>
      hmac_sha256 e d1 (sharedSecret ss) = Signed salt \<and> salt \<noteq> [] \<and>
      ssl_hash e (challenge2 ss @ octets_of_string ''key exchange key'' @ challenge1 ss) = Some d2 \<and>
      hmac_sha256 e d2 (sharedSecret ss) = Signed key \<and> key \<noteq> [] \<longrightarrow>
        fst (register_matched_remote_datareader e st local_dw remote_p (Some ss)) =
          Inr (fst (generate_handle st)) \<and>
        keys (snd (register_matched_remote_datareader e st local_dw remote_p (Some ss)))
          (fst (generate_handle st)) =
          Some [\<lparr>transformation_kind = [0, 0, 0, CRYPTO_TRANSFORMATION_KIND_AES256_GCM],
                 master_salt = salt, sender_key_id = [0, 0, 0, 0], master_sender_key = key,
                 receiver_specific_key_id = [0, 0, 0, 0],
                 master_receiver_specific_key = []\<rparr>]) \<and>
     (hkdf e [] (challenge1 ss) KxSaltCookie (challenge2 ss) (sharedSecret ss) = [] \<or>
      hkdf e [] (challenge2 ss) KxKeyCookie (challenge1 ss) (sharedSecret ss) = [] \<longrightarrow>
        fst (register_matched_remote_datareader e st local_dw remote_p (Some ss)) =
          Inl (set_security_error (-1) 0 ''Couldn't create key for volatile remote reader'') \<and>
        returned_handle (fst (register_matched_remote_datareader e st local_dw remote_p (Some ss)))
          = HANDLE_NIL \<and>
        keys (snd (register_matched_remote_datareader e st local_dw remote_p (Some ss))) = keys st)"
proof -
  have k1: "keys (snd (generate_handle st)) local_dw = Some [k]"
    using assms(3) by (simp add: generate_handle_def increment_handle_def)
  have kk: "keys (snd (generate_handle st)) = keys st"
    by (simp add: generate_handle_def increment_handle_def)
  obtain h st1 where g: "generate_handle st = (h, st1)"
    by (cases "generate_handle st")
  from k1 kk g have st1: "keys st1 local_dw = Some [k]" "keys st1 = keys st" by simp_all
  show ?thesis
    using assms(1,2,4) st1
    by (auto simp: register_matched_remote_datareader_def g Let_def make_volatile_key_def
        hkdf_def take_16_cookies record_remote_datareader_def map_index_def returned_handle_def
        split: option.splits sign_result.splits)
qed

theorem register_matched_remote_datareader_volatile_witness:
  "(1 :: handle) \<noteq> HANDLE_NIL \<and> (9 :: handle) \<noteq> HANDLE_NIL \<and>
   keys wit_volatile_state 1 = Some [make_volatile_placeholder wit_env] \<and>
   is_volatile_placeholder wit_env (make_volatile_placeholder wit_env) \<and>
   fst (register_matched_remote_datareader wit_env wit_volatile_state 1 9 (Some wit_secret)) = Inr 5 \<and>
   keys (snd (register_matched_remote_datareader wit_env wit_volatile_state 1 9 (Some wit_secret))) 5 =
     Some [\<lparr>transformation_kind = [0, 0, 0, 4],
            master_salt = replicate 32 1, sender_key_id = [0, 0, 0, 0],
            master_sender_key = replicate 32 2,
            receiver_specific_key_id = [0, 0, 0, 0], master_receiver_specific_key = []\<rparr>] \<and>
   hkdf wit_env_failing [] (challenge1 wit_secret) KxSaltCookie (challenge2 wit_secret)
     (sharedSecret wit_secret) = [] \<and>
   returned_handle
     (fst (register_matched_remote_datareader wit_env_failing wit_volatile_state 1 9 (Some wit_secret)))
     = HANDLE_NIL \<and>
   keys (snd (register_matched_remote_datareader wit_env_failing wit_volatile_state 1 9 (Some wit_secret)))
     = keys wit_volatile_state"
proof -
  have h: "(1 :: handle) \<noteq> HANDLE_NIL" "(9 :: handle) \<noteq> HANDLE_NIL"
    by (simp_all add: HANDLE_NIL_def)
  have k: "keys wit_volatile_state 1 = Some [make_volatile_placeholder wit_env]"
    by (simp add: wit_volatile_state_def)
  have p: "is_volatile_placeholder wit_env (make_volatile_placeholder wit_env)"
    by (simp add: is_volatile_placeholder_def make_volatile_placeholder_def memcmp_eq_def)
  have p': "is_volatile_placeholder wit_env_failing (make_volatile_placeholder wit_env)"
    by (simp add: is_volatile_placeholder_def make_volatile_placeholder_def memcmp_eq_def
        volatile_placeholder_kind_def wit_env_failing_def)
  have f: "hkdf wit_env_failing [] (challenge1 wit_secret) KxSaltCookie (challenge2 wit_secret)
     (sharedSecret wit_secret) = []"
    by (simp add: hkdf_def wit_env_failing_def wit_env_def)
  have s: "ssl_hash wit_env (challenge1 wit_secret @ octets_of_string ''keyexchange salt'' @
      challenge2 wit_secret) = Some (replicate 32 1)"
    "ssl_hash wit_env (challenge2 wit_secret @ octets_of_string ''key exchange key'' @
      challenge1 wit_secret) = Some (replicate 32 2)"
    "hmac_sha256 wit_env (replicate 32 1) (sharedSecret wit_secret) = Signed (replicate 32 1)"
    "hmac_sha256 wit_env (replicate 32 2) (sharedSecret wit_secret) = Signed (replicate 32 2)"
    by (simp_all add: wit_env_def wit_secret_def)
  have g: "fst (generate_handle wit_volatile_state) = 5"
    by (simp add: generate_handle_def increment_handle_def wit_volatile_state_def)
  from register_matched_remote_datareader_volatile [OF h k p, of wit_secret
      "replicate 32 1" "replicate 32 1" "replicate 32 2" "replicate 32 2"] s g
  have ok: "fst (register_matched_remote_datareader wit_env wit_volatile_state 1 9 (Some wit_secret)) = Inr 5 \<and>
   keys (snd (register_matched_remote_datareader wit_env wit_volatile_state 1 9 (Some wit_secret))) 5 =
     Some [\<lparr>transformation_kind = [0, 0, 0, 4],
            master_salt = replicate 32 1, sender_key_id = [0, 0, 0, 0],
            master_sender_key = replicate 32 2,
            receiver_specific_key_id = [0, 0, 0, 0], master_receiver_specific_key = []\<rparr>]"
    by (simp add: CRYPTO_TRANSFORMATION_KIND_AES256_GCM_def)
  from register_matched_remote_datareader_volatile [OF h k p', of wit_secret] f
  have bad: "returned_handle
     (fst (register_matched_remote_datareader wit_env_failing wit_volatile_state 1 9 (Some wit_secret)))
     = HANDLE_NIL \<and>
   keys (snd (register_matched_remote_datareader wit_env_failing wit_volatile_state 1 9 (Some wit_secret)))
     = keys wit_volatile_state"
    by (simp add: returned_handle_def)
  from h k p ok f bad show ?thesis by simp
qed

section \<open>Encoding a submessage with an authenticating key\<close>

lemma ucast_of_nat_16: "(ucast (of_nat m :: 32 word) :: 16 word) = of_nat m"
  by (rule bit_word_eqI) (auto simp: bit_simps)

lemma ff_mask: "(0xff :: 32 word) = mask 8"
  by (simp add: mask_eq_exp_minus_1)

lemma two_octets_of_len:
  "push_bit 8 (ucast (ucast (drop_bit 8 w AND 0xff :: 32 word) :: octet) :: 16 word) OR
   ucast (ucast (w AND 0xff :: 32 word) :: octet) = (ucast w :: 16 word)"
proof (rule bit_word_eqI)
  fix n :: nat
  assume "n < LENGTH(16)"
  then consider "n < 8" | "8 \<le> n" "n < 16" by fastforce
  then show "bit (push_bit 8 (ucast (ucast (drop_bit 8 w AND 0xff :: 32 word) :: octet) :: 16 word) OR
      ucast (ucast (w AND 0xff :: 32 word) :: octet)) n = bit (ucast w :: 16 word) n"
    unfolding ff_mask by cases (auto simp: bit_simps)
qed

lemma length_patch [simp]: "length (patch_submessage_length e p) = length p"
  by (simp add: patch_submessage_length_def Let_def)

lemma patch_nonzero: "submessage_length e p \<noteq> 0 \<Longrightarrow> patch_submessage_length e p = p"
  by (simp add: patch_submessage_length_def)

lemma patch_other:
  "i \<noteq> 2 \<Longrightarrow> i \<noteq> 3 \<Longrightarrow> patch_submessage_length e p ! i = p ! i"
  by (auto simp: patch_submessage_length_def Let_def)

lemma patch_flags: "submessage_flags e (patch_submessage_length e p) = submessage_flags e p"
  by (simp add: submessage_flags_def patch_other)

lemma patch_zero:
  assumes "4 \<le> length p" and "submessage_length e p = 0"
  shows "submessage_length e (patch_submessage_length e p) = of_nat (length p - 4)"
proof -
  let ?len = "of_nat (length p) - 4 :: 32 word"
  define lo :: octet where "lo = ucast (?len AND 0xff)"
  define hi :: octet where "hi = ucast (drop_bit 8 ?len AND 0xff)"
  define out where "out = patch_submessage_length e p"
  have len: "push_bit 8 (ucast hi :: 16 word) OR ucast lo = of_nat (length p - 4)"
  proof -
    have "?len = of_nat (length p - 4)" using assms(1) by (simp add: of_nat_diff)
    then have "(ucast ?len :: 16 word) = of_nat (length p - 4)" by (simp add: ucast_of_nat_16)
    with two_octets_of_len [of ?len] show ?thesis by (simp add: lo_def hi_def)
  qed
  have fl: "submessage_flags e out = submessage_flags e p"
    by (simp add: out_def patch_flags)
  have l: "4 \<le> length out" using assms(1) by (simp add: out_def)
  show ?thesis
  proof (cases "submessage_flags e p AND 1 \<noteq> 0")
    case True
    with assms have "out = p[2 := lo, 3 := hi]"
      by (simp add: out_def patch_submessage_length_def Let_def lo_def hi_def
          numeral_3_eq_3 numeral_2_eq_2)
    with assms(1) have "out ! 2 = lo" "out ! 3 = hi" by simp_all
    with True fl l len show ?thesis
      unfolding out_def [symmetric] by (simp add: submessage_length_def)
  next
    case False
    with assms have "out = p[3 := lo, 2 := hi]"
      by (simp add: out_def patch_submessage_length_def Let_def lo_def hi_def
          numeral_3_eq_3 numeral_2_eq_2)
    with assms(1) have "out ! 2 = hi" "out ! 3 = lo" by simp_all
    with False fl l len show ?thesis
      unfolding out_def [symmetric] by (simp add: submessage_length_def)
  qed
qed

lemma align_pad_if: "(if x mod 4 \<noteq> 0 then 4 - x mod 4 else 0) = align_pad 4 x"
  by (simp add: align_pad_def)

lemma align_pad_add_mult: "align_pad 4 (4 * k + n) = align_pad 4 n"
  by (simp add: align_pad_def)

lemma align_pad_add_24: "align_pad 4 (24 + n) = align_pad 4 n"
  using align_pad_add_mult [of 6 n] by simp

lemma mod_4_cases: "(x :: nat) mod 4 = 0 \<or> x mod 4 = 1 \<or> x mod 4 = 2 \<or> x mod 4 = 3"
proof -
  have "x mod 4 < 4" by simp
  then show ?thesis by linarith
qed

lemma align_pad_aligned: "(n + align_pad 4 n) mod 4 = 0"
proof -
  have "(n + align_pad 4 n) mod 4 = (n mod 4 + align_pad 4 (n mod 4)) mod 4"
    by (simp add: align_pad_def mod_add_left_eq)
  also have "\<dots> = 0"
    using mod_4_cases [of n] by (auto simp: align_pad_def)
  finally show ?thesis .
qed

lemma align_pad_0: "x mod 4 = 0 \<Longrightarrow> align_pad 4 x = 0"
  by (simp add: align_pad_def)

lemma align_pad_footer: "align_pad 4 (28 + n + align_pad 4 n + 16) = 0"
proof -
  have "(28 + n + align_pad 4 n + 16) mod 4 = (4 * 11 + (n + align_pad 4 n)) mod 4"
    by (simp add: ac_simps)
  also have "\<dots> = 0"
    using align_pad_aligned [of n] by (simp only: mod_mult_self4)
  finally show ?thesis by (rule align_pad_0)
qed

lemma if_pad: "(if x mod 4 \<noteq> 0 then p + (4 - x mod 4) else p) = p + align_pad 4 x"
  by (simp add: align_pad_def)

lemma length_cdr_SubmessageHeader: "length (cdr_SubmessageHeader i f l) = 4"
  by (simp add: cdr_SubmessageHeader_def)

lemma length_align_w: "length (align_w e pos) = align_pad 4 pos"
  by (simp add: align_w_def)

lemma frame_submessage_auth_only:
  assumes "receiver_specific_macs footer = []"
  shows "frame_submessage e True header footer pOut =
     cdr_SubmessageHeader (SEC_PREFIX e) 0 20 @ cdr_CryptoHeader header @ pOut @
     align_w e (length pOut) @
     cdr_SubmessageHeader (SEC_POSTFIX e) 0 20 @ octet_array 16 (common_mac footer) @ be32 0"
proof -
  let ?n = "length pOut"
  let ?pre = "28 + ?n + align_pad 4 ?n"
  have al: "align_pad 4 (?pre + 16) = 0"
    by (rule align_pad_footer)
  have foot: "cdr_CryptoFooter ?pre footer = octet_array 16 (common_mac footer) @ be32 0"
    using assms al by (simp add: cdr_CryptoFooter_def cdr_ulong_def)
  have "gen_find_size_CryptoFooter footer (28 + ?n, align_pad 4 ?n) =
      (28 + ?n + 20, align_pad 4 ?n)"
    using assms al
    by (simp add: gen_find_size_CryptoFooter_def find_size_octets_def find_size_ulong_def
        add.assoc)
  moreover have "(4 + 20 + ?n + 4, 0 + align_pad 4 (4 + 20 + ?n + 0)) = (28 + ?n, align_pad 4 ?n)"
    by (simp add: align_pad_add_24)
  ultimately have G: "gen_find_size_CryptoFooter footer
      (4 + 20 + ?n + 4, 0 + align_pad 4 (4 + 20 + ?n + 0)) = (48 + ?n, align_pad 4 ?n)"
    by simp
  have H: "word_of_nat (4 + 20 + 0 - 4) = (20 :: 16 word)" by simp
  have R: "align_w e (4 + 20 + ?n) = align_w e ?n"
    using align_pad_add_24 [of ?n] by (simp add: align_w_def)
  have P: "4 + 20 + ?n + length (align_w e ?n) + 4 = ?pre"
    by (simp add: length_align_w)
  have Q: "word_of_nat (48 + ?n + align_pad 4 ?n -
      (4 + 20 + ?n + 4 + (0 + align_pad 4 (4 + 20 + ?n + 0)))) = (20 :: 16 word)"
    by (simp add: align_pad_add_24)
  have len: "length (cdr_SubmessageHeader (SEC_PREFIX e) 0 20 @ cdr_CryptoHeader header @ pOut @
     align_w e (length pOut) @
     cdr_SubmessageHeader (SEC_POSTFIX e) 0 20 @ octet_array 16 (common_mac footer) @ be32 0) =
     48 + ?n + align_pad 4 ?n"
    by (simp add: length_cdr_SubmessageHeader length_cdr_CryptoHeader length_octet_array
        length_be32 length_align_w)
  have "frame_submessage e True header footer pOut =
     written_buffer e (48 + ?n + align_pad 4 ?n)
       (cdr_SubmessageHeader (SEC_PREFIX e) 0 20 @ cdr_CryptoHeader header @ pOut @
        align_w e (length pOut) @
        cdr_SubmessageHeader (SEC_POSTFIX e) 0 20 @ octet_array 16 (common_mac footer) @ be32 0)"
    unfolding frame_submessage_def gen_find_size_CryptoHeader_eq
    apply (simp only: split_conv Let_def if_True if_False not_True_eq_False simp_thms if_pad)
    apply (simp only: length_append length_cdr_CryptoHeader)
    apply (simp only: G split_conv)
    apply (simp only: Q H length_cdr_SubmessageHeader)
    apply (simp only: R P foot append_assoc)
    done
  with len show ?thesis by (simp only: written_buffer_exact)
qed

lemma authenticates_not_encrypts: "authenticates k \<Longrightarrow> \<not> encrypts k"
  by (auto simp: authenticates_def encrypts_def Let_def
      CRYPTO_TRANSFORMATION_KIND_AES128_GMAC_def CRYPTO_TRANSFORMATION_KIND_AES256_GMAC_def
      CRYPTO_TRANSFORMATION_KIND_AES128_GCM_def CRYPTO_TRANSFORMATION_KIND_AES256_GCM_def)

lemma authtag_footer:
  "authtag e master sess plain footer pos = (Inr (header, footer'), sess', pos') \<Longrightarrow>
   receiver_specific_macs footer' = receiver_specific_macs footer"
  by (auto simp: authtag_def Let_def split: prod.splits sum.splits)

lemma encode_submessage_auth_only_frame:
  assumes "keys st h = Some ks" and "ks \<noteq> []" and "authenticates (ks ! 0)"
    and "fst (encode_submessage e st plain h) = Inr enc"
  shows "\<exists>header (footer :: CryptoFooter).
     enc = cdr_SubmessageHeader (SEC_PREFIX e) 0 20 @ cdr_CryptoHeader header @
       patch_submessage_length e plain @ align_w e (length plain) @
       cdr_SubmessageHeader (SEC_POSTFIX e) 0 20 @ octet_array 16 (common_mac footer) @ be32 0"
proof -
  let ?p = "patch_submessage_length e plain"
  obtain sess sm where m: "map_index Session_default (sessions st) (h, SUBMSG_KEY_IDX) = (sess, sm)"
    by (cases "map_index Session_default (sessions st) (h, SUBMSG_KEY_IDX)")
  obtain r sess' pos' where
    r: "authtag e (ks ! 0) sess ?p (CryptoFooter_uninit e) (rand_pos st) = (r, sess', pos')"
    by (cases "authtag e (ks ! 0) sess ?p (CryptoFooter_uninit e) (rand_pos st)")
  from assms m r authenticates_not_encrypts [OF assms(3)]
  obtain header footer where ok: "r = Inr (header, footer)"
    "enc = frame_submessage e True header footer ?p"
    by (auto simp: encode_submessage_def Let_def SUBMSG_KEY_IDX_def split: sum.splits)
  from authtag_footer [OF r [unfolded ok(1)]]
  have "receiver_specific_macs footer = []" by (simp add: CryptoFooter_uninit_def)
  from frame_submessage_auth_only [OF this, of e header ?p] ok(2)
  have "enc = cdr_SubmessageHeader (SEC_PREFIX e) 0 20 @ cdr_CryptoHeader header @
       patch_submessage_length e plain @ align_w e (length plain) @
       cdr_SubmessageHeader (SEC_POSTFIX e) 0 20 @ octet_array 16 (common_mac footer) @ be32 0"
    by simp
  then show ?thesis by blast
qed

lemma emitted_of_frame:
  "length a = 4 \<Longrightarrow> length b = 20 \<Longrightarrow> take (length em) (drop 24 (a @ b @ em @ rest)) = em"
  by simp

text \<open>
  What \<open>encode_submessage\<close> does emit with a first key that authenticates, on a submessage
  of at least 4 octets, when the call succeeds: the SEC_PREFIX submessage with the crypto
  header, the submessage, the padding of \<open>align_w\<close>, and the SEC_POSTFIX submessage with the
  crypto footer, and no SEC_BODY submessage. The submessage is emitted as it is when its
  16-bit length field is not zero. When the field is zero, the emitted copy differs at the
  two octets of that field only, and the field, read in the byte order that bit 0 of the
  flags selects, holds the low 16 bits of the length of the submessage minus 4.
\<close>

lemma encode_submessage_auth_only_layout:
  assumes "keys st h = Some ks" and "ks \<noteq> []" and "authenticates (ks ! 0)"
    and "4 \<le> length plain"
    and "fst (encode_submessage e st plain h) = Inr enc"
  shows "\<exists>header (footer :: CryptoFooter) emitted.
     enc = cdr_SubmessageHeader (SEC_PREFIX e) 0 20 @ cdr_CryptoHeader header @ emitted @
       align_w e (length plain) @
       cdr_SubmessageHeader (SEC_POSTFIX e) 0 20 @ octet_array 16 (common_mac footer) @ be32 0 \<and>
     length emitted = length plain \<and>
     (submessage_length e plain \<noteq> 0 \<longrightarrow> emitted = plain) \<and>
     (submessage_length e plain = 0 \<longrightarrow>
        (\<forall>i. i \<noteq> 2 \<and> i \<noteq> 3 \<longrightarrow> emitted ! i = plain ! i) \<and>
        submessage_flags e emitted = submessage_flags e plain \<and>
        unat (submessage_length e emitted) = (length plain - 4) mod 65536)"
proof -
  from encode_submessage_auth_only_frame [OF assms(1,2,3,5)]
  obtain header and footer :: CryptoFooter where
    enc: "enc = cdr_SubmessageHeader (SEC_PREFIX e) 0 20 @ cdr_CryptoHeader header @
       patch_submessage_length e plain @ align_w e (length plain) @
       cdr_SubmessageHeader (SEC_POSTFIX e) 0 20 @ octet_array 16 (common_mac footer) @ be32 0"
    by blast
  have z: "unat (submessage_length e (patch_submessage_length e plain)) =
      (length plain - 4) mod 65536" if "submessage_length e plain = 0"
    using patch_zero [OF assms(4) that] by (simp add: unat_of_nat)
  let ?em = "patch_submessage_length e plain"
  have "enc = cdr_SubmessageHeader (SEC_PREFIX e) 0 20 @ cdr_CryptoHeader header @ ?em @
       align_w e (length plain) @
       cdr_SubmessageHeader (SEC_POSTFIX e) 0 20 @ octet_array 16 (common_mac footer) @ be32 0 \<and>
     length ?em = length plain \<and>
     (submessage_length e plain \<noteq> 0 \<longrightarrow> ?em = plain) \<and>
     (submessage_length e plain = 0 \<longrightarrow>
        (\<forall>i. i \<noteq> 2 \<and> i \<noteq> 3 \<longrightarrow> ?em ! i = plain ! i) \<and>
        submessage_flags e ?em = submessage_flags e plain \<and>
        unat (submessage_length e ?em) = (length plain - 4) mod 65536)"
    using enc z by (simp add: patch_nonzero patch_other patch_flags)
  then show ?thesis by blast
qed

lemma isl_authtag_wit_env: "\<not> isl (fst (authtag wit_env k sess plain f pos))"
  by (simp add: authtag_def wit_env_def split_def Let_def)

lemma authenticates_wit_key_gmac: "authenticates wit_key_gmac"
  by (simp add: authenticates_def wit_key_gmac_def TransformKindIndex_def
      CRYPTO_TRANSFORMATION_KIND_AES256_GMAC_def)

lemma isl_encode_submessage_wit_auth:
  "\<not> isl (fst (encode_submessage wit_env wit_auth_state plain 1))"
proof -
  let ?p = "patch_submessage_length wit_env plain"
  have k: "keys wit_auth_state 1 = Some [wit_key_gmac]" by (simp add: wit_auth_state_def)
  obtain sess sm where m: "map_index Session_default (sessions wit_auth_state) (1, SUBMSG_KEY_IDX) = (sess, sm)"
    by (cases "map_index Session_default (sessions wit_auth_state) (1 :: handle, SUBMSG_KEY_IDX)")
  obtain r sess' pos' where
    r: "authtag wit_env wit_key_gmac sess ?p (CryptoFooter_uninit wit_env) (rand_pos wit_auth_state) = (r, sess', pos')"
    by (cases "authtag wit_env wit_key_gmac sess ?p (CryptoFooter_uninit wit_env) (rand_pos wit_auth_state)")
  from isl_authtag_wit_env [of wit_key_gmac sess ?p "CryptoFooter_uninit wit_env" "rand_pos wit_auth_state"] r
  have "\<not> isl r" by simp
  with k m r authenticates_wit_key_gmac authenticates_not_encrypts [OF authenticates_wit_key_gmac]
  show ?thesis
    by (cases r) (auto simp: encode_submessage_def Let_def SUBMSG_KEY_IDX_def)
qed

lemma projr_eq: "\<not> isl x \<Longrightarrow> x = Inr (projr x)"
  by (cases x) simp_all

text \<open>
  The patch at a submessage of 10 octets whose length field is zero: the emitted copy has
  the length field 6.
\<close>

lemma encode_submessage_patches_short:
  "keys wit_auth_state 1 = Some [wit_key_gmac] \<and> [wit_key_gmac] \<noteq> [] \<and>
   authenticates ([wit_key_gmac] ! 0) \<and> 4 \<le> length wit_submessage \<and>
   \<not> isl (fst (encode_submessage wit_env wit_auth_state wit_submessage 1)) \<and>
   submessage_length wit_env wit_submessage = 0 \<and>
   take 4 (projr (fst (encode_submessage wit_env wit_auth_state wit_submessage 1))) =
     [0x31, 0, 0, 20] \<and>
   unat (submessage_length wit_env
     (take 10 (drop 24 (projr (fst (encode_submessage wit_env wit_auth_state wit_submessage 1))))))
     = 6"
proof -
  let ?enc = "projr (fst (encode_submessage wit_env wit_auth_state wit_submessage 1))"
  have k: "keys wit_auth_state 1 = Some [wit_key_gmac]" by (simp add: wit_auth_state_def)
  have ne: "[wit_key_gmac] \<noteq> []" by simp
  have a: "authenticates ([wit_key_gmac] ! 0)" by (simp add: authenticates_wit_key_gmac)
  have l: "4 \<le> length wit_submessage" "length wit_submessage = 10"
    by (simp_all add: wit_submessage_def)
  have ok: "\<not> isl (fst (encode_submessage wit_env wit_auth_state wit_submessage 1))"
    by (rule isl_encode_submessage_wit_auth)
  have z: "submessage_length wit_env wit_submessage = 0"
    by (simp add: submessage_length_def submessage_flags_def wit_submessage_def)
  from encode_submessage_auth_only_layout [OF k ne a l(1) projr_eq [OF ok]]
  obtain header and footer :: CryptoFooter and emitted where
    enc: "?enc = cdr_SubmessageHeader (SEC_PREFIX wit_env) 0 20 @ cdr_CryptoHeader header @ emitted @
       align_w wit_env (length wit_submessage) @
       cdr_SubmessageHeader (SEC_POSTFIX wit_env) 0 20 @ octet_array 16 (common_mac footer) @ be32 0"
    and len: "length emitted = length wit_submessage"
    and val: "submessage_length wit_env wit_submessage = 0 \<longrightarrow>
        unat (submessage_length wit_env emitted) = (length wit_submessage - 4) mod 65536"
    by blast
  have "take (length emitted) (drop 24 ?enc) = emitted"
    unfolding enc
    by (rule emitted_of_frame) (simp_all add: length_cdr_SubmessageHeader length_cdr_CryptoHeader)
  then have em: "take 10 (drop 24 ?enc) = emitted" by (simp add: len l(2))
  have t4: "take 4 ?enc = [0x31, 0, 0, 20]"
    unfolding enc by (simp add: cdr_SubmessageHeader_def wit_env_def)
  from val z l(2) have "unat (submessage_length wit_env emitted) = 6" by simp
  with em have v: "unat (submessage_length wit_env (take 10 (drop 24 ?enc))) = 6" by simp
  from k ne a l(1) ok z t4 v show ?thesis by (intro conjI)
qed

text \<open>
  C7. The claim: with a key that authenticates, the submessage is emitted between SEC_PREFIX
  and SEC_POSTFIX with no SEC_BODY, and a length field that is zero is set, in the emitted
  copy, to the length of the submessage minus 4. The code at a submessage of 65540 octets
  whose length field is zero, which a last submessage may have, with a key that authenticates:
  the call succeeds, and the length field of the emitted copy is still 0, not the length minus
  4, which is 65536. The code stores the two low octets of the length minus 4 and drops the
  rest without a check, although it patches the field because a zero is not legal before
  SEC_POSTFIX.
\<close>

theorem encode_submessage_length_field_stays_zero:
  "keys wit_auth_state 1 = Some [wit_key_gmac] \<and> authenticates wit_key_gmac \<and>
   \<not> isl (fst (encode_submessage wit_env wit_auth_state cex_big_submessage 1)) \<and>
   submessage_length wit_env cex_big_submessage = 0 \<and>
   length cex_big_submessage - 4 = 65536 \<and>
   unat (submessage_length wit_env
     (take (length cex_big_submessage)
        (drop 24 (projr (fst (encode_submessage wit_env wit_auth_state cex_big_submessage 1))))))
     = 0"
proof -
  let ?enc = "projr (fst (encode_submessage wit_env wit_auth_state cex_big_submessage 1))"
  have k: "keys wit_auth_state 1 = Some [wit_key_gmac]" by (simp add: wit_auth_state_def)
  have a: "authenticates ([wit_key_gmac] ! 0)" by (simp add: authenticates_wit_key_gmac)
  have l: "length cex_big_submessage = 65540" by (simp add: cex_big_submessage_def)
  have ok: "\<not> isl (fst (encode_submessage wit_env wit_auth_state cex_big_submessage 1))"
    by (rule isl_encode_submessage_wit_auth)
  have z: "submessage_length wit_env cex_big_submessage = 0"
    by (simp add: submessage_length_def submessage_flags_def cex_big_submessage_def)
  from encode_submessage_auth_only_frame [OF k _ a projr_eq [OF ok]]
  obtain header and footer :: CryptoFooter where
    enc: "?enc = cdr_SubmessageHeader (SEC_PREFIX wit_env) 0 20 @ cdr_CryptoHeader header @
       patch_submessage_length wit_env cex_big_submessage @
       align_w wit_env (length cex_big_submessage) @
       cdr_SubmessageHeader (SEC_POSTFIX wit_env) 0 20 @ octet_array 16 (common_mac footer) @ be32 0"
    by blast
  have "take (length (patch_submessage_length wit_env cex_big_submessage)) (drop 24 ?enc) =
      patch_submessage_length wit_env cex_big_submessage"
    unfolding enc
    by (rule emitted_of_frame) (simp_all add: length_cdr_SubmessageHeader length_cdr_CryptoHeader)
  then have em: "take (length cex_big_submessage) (drop 24 ?enc) =
      patch_submessage_length wit_env cex_big_submessage"
    by simp
  have "submessage_length wit_env (patch_submessage_length wit_env cex_big_submessage) =
      of_nat (length cex_big_submessage - 4)"
    by (rule patch_zero) (simp_all add: l z)
  then have "unat (submessage_length wit_env (patch_submessage_length wit_env cex_big_submessage)) = 0"
    by (simp add: l)
  with em have v: "unat (submessage_length wit_env (take (length cex_big_submessage) (drop 24 ?enc))) = 0"
    by simp
  from k authenticates_wit_key_gmac ok z l v show ?thesis by simp
qed

section \<open>Unregistering\<close>

text \<open>
  What \<open>unregister_datawriter\<close> and \<open>unregister_datareader\<close> do with a handle \<open>h\<close> that is
  not nil: after the call \<open>keys\<close> and \<open>encrypt_options\<close> have no entry under \<open>h\<close>,
  \<open>participant_to_entity\<close> has no entry whose stored entity handle is \<open>h\<close>, and every session
  whose key has first element \<open>h\<close> is erased; the entries of the other handles are unchanged.
\<close>

lemma unregister_endpoint_removes_handle:
  assumes "h \<noteq> HANDLE_NIL"
    and "r = unregister_datawriter st h \<or> r = unregister_datareader st h"
  shows "fst r = Inr True \<and>
     keys (snd r) h = None \<and> encrypt_options (snd r) h = None \<and>
     (\<forall>(p, ei) \<in> set (participant_to_entity (snd r)). ei_handle ei \<noteq> h) \<and>
     (\<forall>i. sessions (snd r) (h, i) = None) \<and>
     (\<forall>h'. h' \<noteq> h \<longrightarrow>
        keys (snd r) h' = keys st h' \<and> encrypt_options (snd r) h' = encrypt_options st h' \<and>
        (\<forall>i. sessions (snd r) (h', i) = sessions st (h', i))) \<and>
     participant_to_entity (snd r) =
       filter (\<lambda>(p, ei). ei_handle ei \<noteq> h) (participant_to_entity st)"
proof -
  from assms have r: "r = (Inr True, clear_endpoint_data st h)"
    by (auto simp: unregister_datawriter_def unregister_datareader_def)
  show ?thesis
    unfolding r by (auto simp: clear_endpoint_data_def)
qed

text \<open>
  C8. The claim: after \<open>unregister_participant\<close>, \<open>unregister_datawriter\<close> or
  \<open>unregister_datareader\<close> with a handle that is not nil, the maps have no entry under that
  handle. The code: \<open>set_remote_participant_crypto_tokens\<close> stores the keys of the tokens
  under the handle of the remote participant, and the entities of a participant are recorded
  in \<open>participant_to_entity\<close> under its handle. In a registry where participant 1 has a key
  list and the writer 2 recorded under it, \<open>unregister_participant\<close> on 1 succeeds and
  returns the registry as it was: the key list of 1 and the entry of
  \<open>participant_to_entity\<close> under 1 are still there. \<open>unregister_datawriter\<close> on 2, in the
  same registry, erases what is held for 2. \<open>unregister_participant\<close> checks the handle and
  clears nothing; the other two call \<open>clear_endpoint_data\<close>.
\<close>

theorem unregister_participant_clears_nothing:
  "set_remote_participant_crypto_tokens empty_state 7 1 toks =
     (Inr True, empty_state\<lparr>keys := [1 \<mapsto> tokens_to_keys toks]\<rparr>) \<and>
   unregister_participant cex_unregister_state 1 = (Inr True, cex_unregister_state) \<and>
   keys cex_unregister_state 1 = Some [wit_key_gcm] \<and>
   participant_to_entity cex_unregister_state =
     [(1, \<lparr>ei_category = DATAWRITER_SUBMESSAGE, ei_handle = 2\<rparr>)] \<and>
   fst (unregister_datawriter cex_unregister_state 2) = Inr True \<and>
   keys (snd (unregister_datawriter cex_unregister_state 2)) 2 = None \<and>
   encrypt_options (snd (unregister_datawriter cex_unregister_state 2)) 2 = None \<and>
   participant_to_entity (snd (unregister_datawriter cex_unregister_state 2)) = []"
  by (simp add: set_remote_participant_crypto_tokens_def unregister_participant_def
      unregister_datawriter_def clear_endpoint_data_def cex_unregister_state_def
      empty_state_def HANDLE_NIL_def)

section \<open>Decoding: what a failure leaves behind\<close>

lemma decrypt_code:
  "decrypt e master sess ct header footer = (Inl ex, sess') \<Longrightarrow> code ex = -1"
  by (auto simp: decrypt_def Let_def set_security_error_def
      split: prod.splits if_splits sum.splits)

lemma verify_code:
  "verify e master sess inp header footer = (Inl ex, sess') \<Longrightarrow> code ex = -1"
  by (auto simp: verify_def Let_def set_security_error_def
      split: prod.splits if_splits option.splits)

text \<open>\<open>get_key\<close> leaves the session as it was or sets its id and its key, nothing else.\<close>

lemma get_key_rekeyed: "rekeyed base hdr (snd (get_key e master base hdr))"
  by (simp add: rekeyed_def get_key_def derive_key_def Let_def split: sign_result.split)

lemma decrypt_session:
  "decrypt e master sess ct hdr ft = (r, sess') \<Longrightarrow> sess' = snd (get_key e master sess hdr)"
  by (auto simp: decrypt_def Let_def split: prod.splits if_splits sum.splits)

lemma verify_session:
  "verify e master sess inp hdr ft = (r, sess') \<Longrightarrow> sess' = snd (get_key e master sess hdr)"
  by (auto simp: verify_def Let_def split: prod.splits if_splits option.splits)

lemma map_index_session:
  "map_index Session_default (sessions st) k = (sess, sm) \<Longrightarrow> sess = session_before st k"
  by (auto simp: map_index_def session_before_def split: option.splits)

lemma map_index_upd: "map_index d m k = (v, m') \<Longrightarrow> m'(k \<mapsto> x) = m(k \<mapsto> x)"
  by (auto simp: map_index_def split: option.splits)

lemma first_match_at_0:
  "same_transform_identifier k ch \<Longrightarrow> first_match_at (k # ks) ch 0"
  by (simp add: first_match_at_def)

lemma first_match_at_Suc:
  "\<not> same_transform_identifier k ch \<Longrightarrow> first_match_at ks ch j \<Longrightarrow>
   first_match_at (k # ks) ch (Suc j)"
  by (simp add: first_match_at_def)

lemma decode_submessage_keys_effect:
  "decode_submessage_keys e st h p ks i = (r, st') \<Longrightarrow>
   keys st' = keys st \<and> participant_to_entity st' = participant_to_entity st \<and>
   encrypt_options st' = encrypt_options st \<and>
   (\<forall>ex. r = Inl ex \<longrightarrow>
      (code ex \<noteq> -1 \<longrightarrow> sessions st' = sessions st) \<and>
      (code ex = -1 \<longrightarrow>
         (\<exists>j. first_match_at ks (p_header p) j \<and>
            sessions st' = (sessions st)((h, i + j) \<mapsto>
              snd (get_key e (ks ! j) (session_before st (h, i + j)) (p_header p))))))"
proof (induction ks arbitrary: i)
  case Nil
  then show ?case by (auto simp: set_security_error_def)
next
  case (Cons k ks)
  show ?case
  proof (cases "matches k (p_header p)")
    case False
    then have ns: "\<not> same_transform_identifier k (p_header p)"
      by (simp add: matches_same_transform_identifier)
    from Cons.prems False
    have l: "decode_submessage_keys e st h p ks (i + 1) = (r, st')" by simp
    note ih = Cons.IH [OF l]
    have "\<exists>j. first_match_at (k # ks) (p_header p) j \<and>
            sessions st' = (sessions st)((h, i + j) \<mapsto>
              snd (get_key e ((k # ks) ! j) (session_before st (h, i + j)) (p_header p)))"
      if "r = Inl ex" "code ex = -1" for ex
    proof -
      from ih that obtain j where j: "first_match_at ks (p_header p) j"
        "sessions st' = (sessions st)((h, i + 1 + j) \<mapsto>
              snd (get_key e (ks ! j) (session_before st (h, i + 1 + j)) (p_header p)))"
        by blast
      from first_match_at_Suc [OF ns j(1)] j(2) show ?thesis
        by (intro exI [of _ "Suc j"]) simp
    qed
    with ih show ?thesis by blast
  next
    case True
    note m = True
    then have fm: "first_match_at (k # ks) (p_header p) 0"
      by (simp add: matches_same_transform_identifier first_match_at_0)
    show ?thesis
    proof (cases "encrypts k")
      case True
      obtain sess sm where mi: "map_index Session_default (sessions st) (h, i) = (sess, sm)"
        by (cases "map_index Session_default (sessions st) (h, i)")
      obtain r' sess' where d: "decrypt e k sess (p_ciphertext p) (p_header p) (p_footer p) = (r', sess')"
        by (cases "decrypt e k sess (p_ciphertext p) (p_header p) (p_footer p)")
      from Cons.prems m True mi d
      have res: "r = r'" "st' = st\<lparr>sessions := sm((h, i) \<mapsto> sess')\<rparr>"
        by (auto simp: Let_def)
      from map_index_session [OF mi] map_index_upd [OF mi] decrypt_session [OF d]
      have s: "sessions st' = (sessions st)((h, i + 0) \<mapsto>
          snd (get_key e ((k # ks) ! 0) (session_before st (h, i + 0)) (p_header p)))"
        by (simp add: res(2))
      from decrypt_code [of e k sess "p_ciphertext p" "p_header p" "p_footer p" _ sess'] d res(1)
      have c: "\<And>ex. r = Inl ex \<Longrightarrow> code ex = -1" by simp
      from res(2) have fr: "keys st' = keys st" "participant_to_entity st' = participant_to_entity st"
        "encrypt_options st' = encrypt_options st" by simp_all
      from fm s c fr show ?thesis by blast
    next
      case False
      note ne = False
      show ?thesis
      proof (cases "authenticates k")
        case True
        obtain sess sm where mi: "map_index Session_default (sessions st) (h, i) = (sess, sm)"
          by (cases "map_index Session_default (sessions st) (h, i)")
        obtain r' sess' where d: "verify e k sess (p_authenticated p) (p_header p) (p_footer p) = (r', sess')"
          by (cases "verify e k sess (p_authenticated p) (p_header p) (p_footer p)")
        from Cons.prems m ne True mi d
        have res: "r = r'" "st' = st\<lparr>sessions := sm((h, i) \<mapsto> sess')\<rparr>"
          by (auto simp: Let_def)
        from map_index_session [OF mi] map_index_upd [OF mi] verify_session [OF d]
        have s: "sessions st' = (sessions st)((h, i + 0) \<mapsto>
            snd (get_key e ((k # ks) ! 0) (session_before st (h, i + 0)) (p_header p)))"
          by (simp add: res(2))
        from verify_code [of e k sess "p_authenticated p" "p_header p" "p_footer p" _ sess'] d res(1)
        have c: "\<And>ex. r = Inl ex \<Longrightarrow> code ex = -1" by simp
        from res(2) have fr: "keys st' = keys st" "participant_to_entity st' = participant_to_entity st"
          "encrypt_options st' = encrypt_options st" by simp_all
        from fm s c fr show ?thesis by blast
      next
        case False
        with Cons.prems m ne show ?thesis by (auto simp: set_security_error_def)
      qed
    qed
  qed
qed

lemma decode_payload_keys_effect:
  "decode_payload_keys e st h p ks i = (r, st') \<Longrightarrow>
   keys st' = keys st \<and> participant_to_entity st' = participant_to_entity st \<and>
   encrypt_options st' = encrypt_options st \<and>
   (\<forall>ex. r = Inl ex \<longrightarrow>
      (code ex \<noteq> -1 \<longrightarrow> sessions st' = sessions st) \<and>
      (code ex = -1 \<longrightarrow>
         (\<exists>j. first_match_at ks (p_header p) j \<and>
            sessions st' = (sessions st)((h, i + j) \<mapsto>
              snd (get_key e (ks ! j) (session_before st (h, i + j)) (p_header p))))))"
proof (induction ks arbitrary: i)
  case Nil
  then show ?case by (auto simp: set_security_error_def)
next
  case (Cons k ks)
  show ?case
  proof (cases "matches k (p_header p)")
    case False
    then have ns: "\<not> same_transform_identifier k (p_header p)"
      by (simp add: matches_same_transform_identifier)
    from Cons.prems False
    have l: "decode_payload_keys e st h p ks (i + 1) = (r, st')" by simp
    note ih = Cons.IH [OF l]
    have "\<exists>j. first_match_at (k # ks) (p_header p) j \<and>
            sessions st' = (sessions st)((h, i + j) \<mapsto>
              snd (get_key e ((k # ks) ! j) (session_before st (h, i + j)) (p_header p)))"
      if "r = Inl ex" "code ex = -1" for ex
    proof -
      from ih that obtain j where j: "first_match_at ks (p_header p) j"
        "sessions st' = (sessions st)((h, i + 1 + j) \<mapsto>
              snd (get_key e (ks ! j) (session_before st (h, i + 1 + j)) (p_header p)))"
        by blast
      from first_match_at_Suc [OF ns j(1)] j(2) show ?thesis
        by (intro exI [of _ "Suc j"]) simp
    qed
    with ih show ?thesis by blast
  next
    case True
    note m = True
    then have fm: "first_match_at (k # ks) (p_header p) 0"
      by (simp add: matches_same_transform_identifier first_match_at_0)
    show ?thesis
    proof (cases "encrypts k")
      case True
      obtain sess sm where mi: "map_index Session_default (sessions st) (h, i) = (sess, sm)"
        by (cases "map_index Session_default (sessions st) (h, i)")
      obtain r' sess' where d: "decrypt e k sess (p_ciphertext p) (p_header p) (p_footer p) = (r', sess')"
        by (cases "decrypt e k sess (p_ciphertext p) (p_header p) (p_footer p)")
      from Cons.prems m True mi d
      have res: "r = r'" "st' = st\<lparr>sessions := sm((h, i) \<mapsto> sess')\<rparr>"
        by (auto simp: Let_def)
      from map_index_session [OF mi] map_index_upd [OF mi] decrypt_session [OF d]
      have s: "sessions st' = (sessions st)((h, i + 0) \<mapsto>
          snd (get_key e ((k # ks) ! 0) (session_before st (h, i + 0)) (p_header p)))"
        by (simp add: res(2))
      from decrypt_code [of e k sess "p_ciphertext p" "p_header p" "p_footer p" _ sess'] d res(1)
      have c: "\<And>ex. r = Inl ex \<Longrightarrow> code ex = -1" by simp
      from res(2) have fr: "keys st' = keys st" "participant_to_entity st' = participant_to_entity st"
        "encrypt_options st' = encrypt_options st" by simp_all
      from fm s c fr show ?thesis by blast
    next
      case False
      with Cons.prems m show ?thesis by (auto simp: set_security_error_def split: if_splits)
    qed
  qed
qed


lemma map_index_frame:
  "map_index d m k = (v, m') \<Longrightarrow> k' \<noteq> k \<or> m k' \<noteq> None \<Longrightarrow> m' k' = m k'"
  by (auto simp: map_index_def split: option.splits)

lemma map_index_fst_keys:
  "map_index [] m k = (ks, m') \<Longrightarrow> ks \<noteq> [] \<Longrightarrow> m k = Some ks"
  by (auto simp: map_index_def split: option.splits)

lemma first_match_at_nonempty: "first_match_at ks ch i \<Longrightarrow> ks \<noteq> []"
  by (auto simp: first_match_at_def)

text \<open>
  C9, as amended. When \<open>decode_submessage\<close> or \<open>decode_serialized_payload\<close> for the sender
  \<open>h\<close> returns a failure: \<open>participant_to_entity\<close> is as before; the entries of \<open>keys\<close> and
  of \<open>encrypt_options\<close> that existed before, and those of every handle but \<open>h\<close>, are as
  before (\<open>decode_submessage\<close> leaves the whole of \<open>encrypt_options\<close> as before); and the
  session table is as before unless the failure arose inside \<open>decrypt\<close> or \<open>verify\<close> (code
  -1: no session key, unsupported kind, a failure of the cipher or of the tag). In that case
  \<open>h\<close> has a key list, and the table differs from the one before at most in the session of
  \<open>(h, i)\<close>, \<open>i\<close> being the index of the first key of \<open>h\<close> whose transformation kind and key
  id are those of the header: that session is the one \<open>get_key\<close> leaves, which is the session
  stored before (a default-constructed one when there was none), either as it was or with its
  id set to the session id of the header and its key set anew, its IV suffix and its counter
  as they were. \<open>decode_serialized_payload\<close> with a nil handle fails with code -1 and
  changes nothing.
\<close>

theorem decode_failure_registry:
  "(decode_submessage e st enc h = (Inl ex, st') \<longrightarrow>
      participant_to_entity st' = participant_to_entity st \<and>
      encrypt_options st' = encrypt_options st \<and>
      (\<forall>h'. h' \<noteq> h \<or> keys st h' \<noteq> None \<longrightarrow> keys st' h' = keys st h') \<and>
      (code ex \<noteq> -1 \<longrightarrow> sessions st' = sessions st) \<and>
      (code ex = -1 \<longrightarrow>
         (\<exists>ks i s'. keys st h = Some ks \<and>
            first_match_at ks (p_header (parse_submessage e enc)) i \<and>
            s' = snd (get_key e (ks ! i) (session_before st (h, i))
                   (p_header (parse_submessage e enc))) \<and>
            rekeyed (session_before st (h, i)) (p_header (parse_submessage e enc)) s' \<and>
            sessions st' = (sessions st)((h, i) \<mapsto> s')))) \<and>
   (decode_serialized_payload e st enc rh h = (Inl ex, st') \<longrightarrow>
      participant_to_entity st' = participant_to_entity st \<and>
      (\<forall>h'. h' \<noteq> h \<or> encrypt_options st h' \<noteq> None \<longrightarrow>
         encrypt_options st' h' = encrypt_options st h') \<and>
      (\<forall>h'. h' \<noteq> h \<or> keys st h' \<noteq> None \<longrightarrow> keys st' h' = keys st h') \<and>
      (h = HANDLE_NIL \<longrightarrow> st' = st) \<and>
      (code ex \<noteq> -1 \<longrightarrow> sessions st' = sessions st) \<and>
      (code ex = -1 \<and> h \<noteq> HANDLE_NIL \<longrightarrow>
         (\<exists>ks i s'. keys st h = Some ks \<and>
            first_match_at ks (p_header (parse_payload e enc)) i \<and>
            s' = snd (get_key e (ks ! i) (session_before st (h, i))
                   (p_header (parse_payload e enc))) \<and>
            rekeyed (session_before st (h, i)) (p_header (parse_payload e enc)) s' \<and>
            sessions st' = (sessions st)((h, i) \<mapsto> s'))))"
proof (intro conjI impI)
  assume a: "decode_submessage e st enc h = (Inl ex, st')"
  let ?hdr = "p_header (parse_submessage e enc)"
  obtain ks km where mi: "map_index [] (keys st) h = (ks, km)"
    by (cases "map_index [] (keys st) h")
  from a mi have l: "decode_submessage_keys e (st\<lparr>keys := km\<rparr>) h (parse_submessage e enc) ks 0 =
      (Inl ex, st')"
    by (simp add: decode_submessage_def Let_def)
  note f = decode_submessage_keys_effect [OF l]
  from f show "participant_to_entity st' = participant_to_entity st" by simp
  from f show "encrypt_options st' = encrypt_options st" by simp
  from f map_index_frame [OF mi]
  show "\<forall>h'. h' \<noteq> h \<or> keys st h' \<noteq> None \<longrightarrow> keys st' h' = keys st h'" by simp
  { assume "code ex \<noteq> -1"
    with f show "sessions st' = sessions st" by simp }
  { assume "code ex = -1"
    with f obtain j where j: "first_match_at ks ?hdr j"
      "sessions st' = (sessions st)((h, j) \<mapsto>
         snd (get_key e (ks ! j) (session_before st (h, j)) ?hdr))"
      by (auto simp: session_before_def)
    from map_index_fst_keys [OF mi first_match_at_nonempty [OF j(1)]]
    have k: "keys st h = Some ks" .
    from k j get_key_rekeyed [of "session_before st (h, j)" ?hdr e "ks ! j"]
    show "\<exists>ks i s'. keys st h = Some ks \<and> first_match_at ks ?hdr i \<and>
            s' = snd (get_key e (ks ! i) (session_before st (h, i)) ?hdr) \<and>
            rekeyed (session_before st (h, i)) ?hdr s' \<and>
            sessions st' = (sessions st)((h, i) \<mapsto> s')"
      by blast }
next
  assume a: "decode_serialized_payload e st enc rh h = (Inl ex, st')"
  let ?hdr = "p_header (parse_payload e enc)"
  have nil: "st' = st" if "h = HANDLE_NIL"
    using a that by (simp add: decode_serialized_payload_def)
  obtain opts eo where mo: "map_index (default_EncryptOpts e) (encrypt_options st) h = (opts, eo)"
    by (cases "map_index (default_EncryptOpts e) (encrypt_options st) h")
  obtain ks km where mi: "map_index [] (keys st) h = (ks, km)"
    by (cases "map_index [] (keys st) h")
  have l: "decode_payload_keys e (st\<lparr>encrypt_options := eo, keys := km\<rparr>) h
        (parse_payload e enc) ks 0 = (Inl ex, st')" if "h \<noteq> HANDLE_NIL"
    using a that mo mi
    by (auto simp: decode_serialized_payload_def Let_def split: if_splits)
  note f = decode_payload_keys_effect [OF l]
  show "participant_to_entity st' = participant_to_entity st"
    using nil f by (cases "h = HANDLE_NIL") simp_all
  show "\<forall>h'. h' \<noteq> h \<or> encrypt_options st h' \<noteq> None \<longrightarrow>
         encrypt_options st' h' = encrypt_options st h'"
    using nil f map_index_frame [OF mo] by (cases "h = HANDLE_NIL") simp_all
  show "\<forall>h'. h' \<noteq> h \<or> keys st h' \<noteq> None \<longrightarrow> keys st' h' = keys st h'"
    using nil f map_index_frame [OF mi] by (cases "h = HANDLE_NIL") simp_all
  { assume "h = HANDLE_NIL"
    then show "st' = st" by (rule nil) }
  { assume "code ex \<noteq> -1"
    then show "sessions st' = sessions st"
      using nil f by (cases "h = HANDLE_NIL") simp_all }
  { assume c: "code ex = -1 \<and> h \<noteq> HANDLE_NIL"
    with f obtain j where j: "first_match_at ks ?hdr j"
      "sessions st' = (sessions st)((h, j) \<mapsto>
         snd (get_key e (ks ! j) (session_before st (h, j)) ?hdr))"
      by (auto simp: session_before_def)
    from map_index_fst_keys [OF mi first_match_at_nonempty [OF j(1)]]
    have k: "keys st h = Some ks" .
    from k j get_key_rekeyed [of "session_before st (h, j)" ?hdr e "ks ! j"]
    show "\<exists>ks i s'. keys st h = Some ks \<and> first_match_at ks ?hdr i \<and>
            s' = snd (get_key e (ks ! i) (session_before st (h, i)) ?hdr) \<and>
            rekeyed (session_before st (h, i)) ?hdr s' \<and>
            sessions st' = (sessions st)((h, i) \<mapsto> s')"
      by blast }
qed


lemma parse_cex_bad_tag:
  "parse_submessage wit_env cex_bad_tag_submessage =
     \<lparr>p_header = \<lparr>tid_transformation_kind = [0, 0, 0, 4],
          tid_transformation_key_id = [1, 0, 0, 0], session_id = [5, 6, 7, 8],
          initialization_vector_suffix = [0, 0, 0, 0, 0, 0, 0, 1]\<rparr>,
      p_footer = \<lparr>common_mac = replicate 16 0, receiver_specific_macs = []\<rparr>,
      p_ciphertext = [1, 2, 3, 4],
      p_authenticated = [0x30, 0, 0, 8, 0, 0, 0, 4, 1, 2, 3, 4]\<rparr>"
  by (simp add: wit_env_def cex_bad_tag_submessage_def)

lemma decrypt_cex_bad_tag:
  "decrypt wit_env wit_key_gcm wit_session [1, 2, 3, 4]
     \<lparr>tid_transformation_kind = [0, 0, 0, 4],
          tid_transformation_key_id = [1, 0, 0, 0], session_id = [5, 6, 7, 8],
          initialization_vector_suffix = [0, 0, 0, 0, 0, 0, 0, 1]\<rparr>
     \<lparr>common_mac = replicate 16 0, receiver_specific_macs = []\<rparr> =
   (Inl (set_security_error (-1) 0 ''EVP_DecryptFinal_ex''),
    wit_session\<lparr>s_id := [5, 6, 7, 8], s_key := replicate 32 0xBB\<rparr>)"
  by (simp add: decrypt_def get_key_def derive_key_def memcmp_eq_def wit_session_def
      wit_key_gcm_def wit_env_def Let_def TransformKindIndex_def
      CRYPTO_TRANSFORMATION_KIND_AES256_GCM_def)

lemma decode_cex_bad_tag:
  "decode_submessage wit_env wit_registry cex_bad_tag_submessage 1 =
     (Inl (set_security_error (-1) 0 ''EVP_DecryptFinal_ex''),
      wit_registry\<lparr>sessions := (sessions wit_registry)
        ((1, 0) \<mapsto> wit_session\<lparr>s_id := [5, 6, 7, 8], s_key := replicate 32 0xBB\<rparr>)\<rparr>)"
proof -
  have k: "map_index [] (keys wit_registry) 1 = ([wit_key_gcm], keys wit_registry)"
    by (simp add: map_index_def wit_registry_def)
  have s: "map_index Session_default (sessions wit_registry) (1, 0) =
      (wit_session, sessions wit_registry)"
    by (simp add: map_index_def wit_registry_def)
  have m: "matches wit_key_gcm \<lparr>tid_transformation_kind = [0, 0, 0, 4],
          tid_transformation_key_id = [1, 0, 0, 0], session_id = [5, 6, 7, 8],
          initialization_vector_suffix = [0, 0, 0, 0, 0, 0, 0, 1]\<rparr>"
    by (simp add: matches_def memcmp_eq_def wit_key_gcm_def)
  have e: "encrypts wit_key_gcm"
    by (simp add: encrypts_def wit_key_gcm_def TransformKindIndex_def
        CRYPTO_TRANSFORMATION_KIND_AES256_GCM_def)
  show ?thesis
    by (simp add: decode_submessage_def k parse_cex_bad_tag m e s decrypt_cex_bad_tag)
qed

lemma decode_cex_unknown_sender:
  "decode_submessage wit_env empty_state cex_bad_tag_submessage 7 =
     (Inl (set_security_error (-2) 1 ''Crypto Key not found''),
      empty_state\<lparr>keys := (keys empty_state)(7 \<mapsto> [])\<rparr>)"
  by (simp add: decode_submessage_def map_index_def empty_state_def)

lemma decode_payload_wit_no_match:
  "decode_serialized_payload wit_env wit_payload_state [] 0 1 =
     (Inl (set_security_error (-3) 1 ''Crypto Key not found''), wit_payload_state)"
proof -
  have k: "map_index [] (keys wit_payload_state) 1 =
      ([wit_key_gmac, wit_key_gcm], keys wit_payload_state)"
    by (simp add: map_index_def wit_payload_state_def)
  have o: "map_index (default_EncryptOpts wit_env) (encrypt_options wit_payload_state) 1 =
      (\<lparr>o_submessage = True, o_payload = True\<rparr>, encrypt_options wit_payload_state)"
    by (simp add: map_index_def wit_payload_state_def)
  have m: "\<not> matches wit_key_gmac (p_header (parse_payload wit_env []))"
    "\<not> matches wit_key_gcm (p_header (parse_payload wit_env []))"
    by (simp_all add: matches_def memcmp_eq_def wit_key_gmac_def wit_key_gcm_def wit_env_def)
  show ?thesis
    by (simp add: decode_serialized_payload_def HANDLE_NIL_def o k m)
qed

theorem decode_failure_registry_witness:
  "decode_submessage wit_env wit_registry cex_bad_tag_submessage 1 =
     (Inl (set_security_error (-1) 0 ''EVP_DecryptFinal_ex''),
      snd (decode_submessage wit_env wit_registry cex_bad_tag_submessage 1)) \<and>
   code (set_security_error (-1) 0 ''EVP_DecryptFinal_ex'') = -1 \<and>
   participant_to_entity (snd (decode_submessage wit_env wit_registry cex_bad_tag_submessage 1)) =
     participant_to_entity wit_registry \<and>
   encrypt_options (snd (decode_submessage wit_env wit_registry cex_bad_tag_submessage 1)) =
     encrypt_options wit_registry \<and>
   keys (snd (decode_submessage wit_env wit_registry cex_bad_tag_submessage 1)) 1 =
     Some [wit_key_gcm] \<and>
   keys (snd (decode_submessage wit_env wit_registry cex_bad_tag_submessage 1)) 2 =
     Some [wit_key_gmac] \<and>
   (\<exists>ks i s'. keys wit_registry 1 = Some ks \<and>
      first_match_at ks (p_header (parse_submessage wit_env cex_bad_tag_submessage)) i \<and>
      rekeyed (session_before wit_registry (1, i))
        (p_header (parse_submessage wit_env cex_bad_tag_submessage)) s' \<and>
      sessions (snd (decode_submessage wit_env wit_registry cex_bad_tag_submessage 1)) =
        (sessions wit_registry)((1, i) \<mapsto> s')) \<and>
   decode_serialized_payload wit_env wit_payload_state [] 0 1 =
     (Inl (set_security_error (-3) 1 ''Crypto Key not found''),
      snd (decode_serialized_payload wit_env wit_payload_state [] 0 1)) \<and>
   code (set_security_error (-3) 1 ''Crypto Key not found'') \<noteq> -1 \<and>
   sessions (snd (decode_serialized_payload wit_env wit_payload_state [] 0 1)) =
     sessions wit_payload_state"
proof -
  let ?D = "decode_submessage wit_env wit_registry cex_bad_tag_submessage 1"
  let ?P = "decode_serialized_payload wit_env wit_payload_state [] 0 1"
  have d: "?D = (Inl (set_security_error (-1) 0 ''EVP_DecryptFinal_ex''), snd ?D)"
    by (simp add: decode_cex_bad_tag)
  have c: "code (set_security_error (-1) 0 ''EVP_DecryptFinal_ex'') = -1"
    by (simp add: set_security_error_def)
  note t = decode_failure_registry [where e = wit_env and st = wit_registry
      and enc = cex_bad_tag_submessage and h = 1
      and ex = "set_security_error (-1) 0 ''EVP_DecryptFinal_ex''" and st' = "snd ?D",
      THEN conjunct1, THEN mp, OF d]
  from t have p: "participant_to_entity (snd ?D) = participant_to_entity wit_registry"
    by (rule conjunct1)
  from t have o: "encrypt_options (snd ?D) = encrypt_options wit_registry"
    by simp
  from t have "keys (snd ?D) 1 = keys wit_registry 1" "keys (snd ?D) 2 = keys wit_registry 2"
    by (simp_all add: wit_registry_def)
  then have k: "keys (snd ?D) 1 = Some [wit_key_gcm]" "keys (snd ?D) 2 = Some [wit_key_gmac]"
    by (simp_all add: wit_registry_def)
  from t c have s: "\<exists>ks i s'. keys wit_registry 1 = Some ks \<and>
      first_match_at ks (p_header (parse_submessage wit_env cex_bad_tag_submessage)) i \<and>
      rekeyed (session_before wit_registry (1, i))
        (p_header (parse_submessage wit_env cex_bad_tag_submessage)) s' \<and>
      sessions (snd ?D) = (sessions wit_registry)((1, i) \<mapsto> s')"
    by blast
  have dp: "?P = (Inl (set_security_error (-3) 1 ''Crypto Key not found''), snd ?P)"
    by (simp add: decode_payload_wit_no_match)
  have cp: "code (set_security_error (-3) 1 ''Crypto Key not found'') \<noteq> -1"
    by (simp add: set_security_error_def)
  note tp = decode_failure_registry [where e = wit_env and st = wit_payload_state
      and enc = "[]" and h = 1 and rh = 0
      and ex = "set_security_error (-3) 1 ''Crypto Key not found''" and st' = "snd ?P",
      THEN conjunct2, THEN mp, OF dp]
  from tp cp have sp: "sessions (snd ?P) = sessions wit_payload_state"
    by blast
  from d c p o k s dp cp sp show ?thesis by (intro conjI)
qed

text \<open>
  C9 as stated fails. A submessage from sender 1 whose header matches the key of the sender
  and names session 05 06 07 08, with a wrong MAC: the call fails in the last step of the
  cipher, and the session of (1, 0), which had the id 01 02 03 04, now has the id of the
  header and the key derived for it. The same submessage from sender 7, which has no keys:
  the call fails with "Crypto Key not found", and \<open>keys\<close> has a new, empty entry for 7.
\<close>

theorem decode_failure_counterexample:
  "fst (decode_submessage wit_env wit_registry cex_bad_tag_submessage 1) =
     Inl (set_security_error (-1) 0 ''EVP_DecryptFinal_ex'') \<and>
   sessions wit_registry (1, 0) = Some wit_session \<and>
   sessions (snd (decode_submessage wit_env wit_registry cex_bad_tag_submessage 1)) (1, 0) =
     Some (wit_session\<lparr>s_id := [5, 6, 7, 8], s_key := replicate 32 0xBB\<rparr>) \<and>
   s_id wit_session = [1, 2, 3, 4] \<and>
   fst (decode_submessage wit_env empty_state cex_bad_tag_submessage 7) =
     Inl (set_security_error (-2) 1 ''Crypto Key not found'') \<and>
   keys empty_state 7 = None \<and>
   keys (snd (decode_submessage wit_env empty_state cex_bad_tag_submessage 7)) 7 = Some []"
  by (simp add: decode_cex_bad_tag decode_cex_unknown_sender)
    (simp add: wit_registry_def wit_session_def empty_state_def)

section \<open>Encoding without keys\<close>

lemma encode_handle_for_no_keys:
  "keys st h = None \<or> keys st h = Some [] \<Longrightarrow> encode_handle_for e st h rs = h"
  by (auto simp: encode_handle_for_def)

text \<open>
  C10. When the sender handle has no entry in the key registry, or its key list is empty,
  \<open>encode_submessage\<close> reports success and the encoded submessage is the plain submessage,
  with no error recorded and no framing added; so do \<open>encode_datareader_submessage\<close> and
  \<open>encode_datawriter_submessage\<close> on arguments that pass their own checks.
\<close>

theorem encode_submessage_without_keys:
  assumes "keys st h = None \<or> keys st h = Some []"
  shows "encode_submessage e st plain h = (Inr plain, st) \<and>
         (h \<noteq> HANDLE_NIL \<and> HANDLE_NIL \<notin> set ws \<longrightarrow>
            encode_datareader_submessage e st plain h ws = (Inr plain, st)) \<and>
         (h \<noteq> HANDLE_NIL \<and> 0 \<le> idx \<and> (rs = [] \<or> idx < int (length rs)) \<and>
          HANDLE_NIL \<notin> set rs \<longrightarrow>
            fst (encode_datawriter_submessage e st plain h rs idx) =
              Inr (plain, int (length rs)))"
proof -
  have sub: "encode_submessage e st' plain h = (Inr plain, st')" if "keys st' = keys st" for st'
    using assms that by (auto simp: encode_submessage_def)
  have rd: "encode_datareader_submessage e st plain h ws = (Inr plain, st)"
    if "h \<noteq> HANDLE_NIL" "HANDLE_NIL \<notin> set ws"
    using that sub [of st] encode_handle_for_no_keys [OF assms]
    by (auto simp: encode_datareader_submessage_def)
  have wr: "fst (encode_datawriter_submessage e st plain h rs idx) = Inr (plain, int (length rs))"
    if "h \<noteq> HANDLE_NIL" "0 \<le> idx" "rs = [] \<or> idx < int (length rs)" "HANDLE_NIL \<notin> set rs"
  proof -
    obtain opts eo where m: "map_index (default_EncryptOpts e) (encrypt_options st) h = (opts, eo)"
      by (cases "map_index (default_EncryptOpts e) (encrypt_options st) h")
    let ?st1 = "st\<lparr>encrypt_options := eo\<rparr>"
    have k: "keys ?st1 = keys st" by simp
    then have "keys ?st1 h = None \<or> keys ?st1 h = Some []" using assms by simp
    then have eh: "encode_handle_for e ?st1 h rs = h" by (rule encode_handle_for_no_keys)
    show ?thesis
      using that m eh sub [OF k]
      by (auto simp: encode_datawriter_submessage_def Let_def)
  qed
  from sub [of st] rd wr show ?thesis by blast
qed

theorem encode_submessage_without_keys_witness:
  "keys wit_nokeys_state 5 = Some [] \<and>
   encode_submessage wit_env wit_nokeys_state [1, 2, 3] 5 = (Inr [1, 2, 3], wit_nokeys_state) \<and>
   encode_datareader_submessage wit_env wit_nokeys_state [1, 2, 3] 5 [6] =
     (Inr [1, 2, 3], wit_nokeys_state) \<and>
   fst (encode_datawriter_submessage wit_env wit_nokeys_state [1, 2, 3] 5 [6] 0) =
     Inr ([1, 2, 3], 1)"
proof -
  have k: "keys wit_nokeys_state 5 = None \<or> keys wit_nokeys_state 5 = Some []"
    by (simp add: wit_nokeys_state_def)
  from encode_submessage_without_keys [OF k, of wit_env "[1, 2, 3]" "[6]" 0 "[6]"]
  show ?thesis
    by (simp add: HANDLE_NIL_def) (simp add: wit_nokeys_state_def)
qed

end
